theory Spec2Isabelle
  imports Complex_Main
begin

section \<open>Python values used by the request gate of app.py\<close>

text \<open>
  A Python \<open>str\<close> is a list of 8-bit characters. The texts the gate inspects (provider
  error messages, model names, hex digests) are ASCII; the warning sign that starts the
  user-facing messages is written as its UTF-8 bytes.

  A \<open>datetime\<close> is the number of microseconds since \<open>datetime.min\<close>, a \<open>date\<close> the
  ordinal of the day. \<open>timedelta.total_seconds()\<close> and the arithmetic on it are floats in
  the source; they are taken here as exact rationals.
\<close>

type_synonym datetime = int
type_synonym date = int
type_synonym bytes = string

definition datetime_min :: datetime where
  "datetime_min = 0"

definition total_seconds :: "int \<Rightarrow> rat" where
  "total_seconds delta = of_int delta / 1000000"

text \<open>The values a caller passes as \<open>user_id\<close>: \<open>None\<close>, an integer or a string.\<close>

datatype pyid = NoneId | IntId int | StrId string

fun truthy :: "pyid \<Rightarrow> bool" where
  "truthy NoneId = False"
| "truthy (IntId n) = (n \<noteq> 0)"
| "truthy (StrId s) = (s \<noteq> [])"

text \<open>An optional text argument (\<open>None\<close> or a \<open>str\<close>), its truth value and its rendering
  inside an f-string.\<close>

type_synonym pyarg = "string option"

fun arg_truthy :: "pyarg \<Rightarrow> bool" where
  "arg_truthy None = False"
| "arg_truthy (Some s) = (s \<noteq> [])"

fun arg_str :: "pyarg \<Rightarrow> string" where
  "arg_str None = ''None''"
| "arg_str (Some s) = s"

subsection \<open>String operations\<close>

fun startswith :: "string \<Rightarrow> string \<Rightarrow> bool" where
  "startswith s [] = True"
| "startswith [] (p # ps) = False"
| "startswith (c # cs) (p # ps) = (c = p \<and> startswith cs ps)"

text \<open>\<open>str_in needle s\<close> is Python's \<open>needle in s\<close>.\<close>

fun str_in :: "string \<Rightarrow> string \<Rightarrow> bool" where
  "str_in needle [] = (needle = [])"
| "str_in needle (c # cs) = (startswith (c # cs) needle \<or> str_in needle cs)"

definition lower_char :: "char \<Rightarrow> char" where
  "lower_char c =
     (let n = (of_char c :: nat) in if 65 \<le> n \<and> n \<le> 90 then char_of (n + 32) else c)"

definition lower :: "string \<Rightarrow> string" where
  "lower s = map lower_char s"

text \<open>\<open>s.replace(old, '')\<close>: every occurrence of \<open>old\<close>, left to right, is removed.\<close>

function replace_empty :: "string \<Rightarrow> string \<Rightarrow> string" where
  "replace_empty old [] = []"
| "replace_empty old (c # cs) =
     (if old \<noteq> [] \<and> startswith (c # cs) old
      then replace_empty old (drop (length old) (c # cs))
      else c # replace_empty old cs)"
  by pat_completeness auto
termination
  by (relation "measure (\<lambda>(old, s). length s)") auto

text \<open>Decimal rendering of integers, and the format \<open>{x:.0f}\<close>, which rounds half to even.\<close>

function digits :: "nat \<Rightarrow> string" where
  "digits n = (if n < 10 then [char_of (48 + n)] else digits (n div 10) @ [char_of (48 + n mod 10)])"
  by pat_completeness auto
termination
  by (relation "measure id") auto

definition str_int :: "int \<Rightarrow> string" where
  "str_int i = (if i < 0 then ''-'' @ digits (nat (- i)) else digits (nat i))"

definition round_half_even :: "rat \<Rightarrow> int" where
  "round_half_even x =
     (let f = \<lfloor>x\<rfloor>; d = x - of_int f
      in if d < 1 / 2 then f else if 1 / 2 < d then f + 1 else if even f then f else f + 1)"

definition fmt0f :: "rat \<Rightarrow> string" where
  "fmt0f x = (if x < 0 then ''-'' @ digits (nat (round_half_even (- x)))
              else digits (nat (round_half_even x)))"

definition warn :: string where
  "warn = [CHR 0xE2, CHR 0x9A, CHR 0xA0, CHR 0xEF, CHR 0xB8, CHR 0x8F]"

section \<open>The shared state\<close>

text \<open>
  The dictionary returned by \<open>process_image_with_gemini\<close>. The keys \<open>model_used\<close> and
  \<open>quota_exceeded\<close> are absent from some of the returned dictionaries.
\<close>

record result_data =
  text_of :: string
  confidence :: string
  processing_time :: rat
  cached :: bool
  cooldown :: rat
  model_used :: "string option"
  quota_exceeded :: "bool option"

text \<open>
  The module globals. \<open>gemini_request_cache\<close> is a Python dict whose iteration order
  \<open>cache_result\<close> relies on, so it is a list of pairs in that order; the other two
  dictionaries are only looked up and updated by key.
\<close>

record gate_state =
  gemini_last_call_time :: datetime
  gemini_user_cooldowns :: "pyid \<rightharpoonup> datetime"
  gemini_daily_counts :: "pyid \<rightharpoonup> int"
  gemini_daily_reset_date :: date
  gemini_request_cache :: "(string \<times> result_data) list"

definition FREE_TIER_DAILY_LIMIT :: int where
  "FREE_TIER_DAILY_LIMIT = 15"

definition FREE_TIER_COOLDOWN :: rat where
  "FREE_TIER_COOLDOWN = 60"

text \<open>\<open>d.get(k, default)\<close> on a map.\<close>

definition get_or :: "('k \<rightharpoonup> 'v) \<Rightarrow> 'k \<Rightarrow> 'v \<Rightarrow> 'v" where
  "get_or d k dflt = (case d k of None \<Rightarrow> dflt | Some v \<Rightarrow> v)"

section \<open>Quota tracker\<close>

text \<open>\<open>today\<close> is the value \<open>date.today()\<close> returns inside the call.\<close>

definition check_daily_quota ::
  "date \<Rightarrow> gate_state \<Rightarrow> pyid \<Rightarrow> (bool \<times> int \<times> int) \<times> gate_state" where
  "check_daily_quota today s uid =
     (let s1 = (if today \<noteq> gemini_daily_reset_date s
                then s\<lparr>gemini_daily_counts := Map.empty, gemini_daily_reset_date := today\<rparr>
                else s);
          user_count = get_or (gemini_daily_counts s1) uid 0;
          daily_limit = FREE_TIER_DAILY_LIMIT
      in if user_count \<ge> daily_limit then ((False, user_count, daily_limit), s1)
         else ((True, user_count, daily_limit), s1))"

definition increment_daily_count :: "gate_state \<Rightarrow> pyid \<Rightarrow> int \<times> gate_state" where
  "increment_daily_count s uid =
     (let s1 = s\<lparr>gemini_daily_counts :=
                   (gemini_daily_counts s)(uid \<mapsto> get_or (gemini_daily_counts s) uid 0 + 1)\<rparr>
      in (the (gemini_daily_counts s1 uid), s1))"

section \<open>Cooldown gate\<close>

text \<open>\<open>now\<close> is the value \<open>datetime.now()\<close> returns inside the call.\<close>

definition check_gemini_cooldown ::
  "datetime \<Rightarrow> gate_state \<Rightarrow> pyid \<Rightarrow> (bool \<times> rat \<times> string) \<times> gate_state" where
  "check_gemini_cooldown now s uid =
     (let time_since_last_call = total_seconds (now - gemini_last_call_time s)
      in if time_since_last_call < FREE_TIER_COOLDOWN
         then (let wait_time = FREE_TIER_COOLDOWN - time_since_last_call
               in ((False, wait_time,
                    ''Global cooldown active. Please wait '' @ fmt0f wait_time @ '' seconds.''), s))
         else if truthy uid
         then (let last_user_call = get_or (gemini_user_cooldowns s) uid datetime_min;
                   time_since_user_call = total_seconds (now - last_user_call)
               in if time_since_user_call < FREE_TIER_COOLDOWN
                  then (let wait_time = FREE_TIER_COOLDOWN - time_since_user_call
                        in ((False, wait_time,
                             ''Please wait '' @ fmt0f wait_time
                               @ '' seconds before another analysis.''), s))
                  else ((True, 0, ''OK''), s))
         else ((True, 0, ''OK''), s))"

text \<open>The two clock reads of \<open>update_gemini_call_time\<close> are \<open>now1\<close> and \<open>now2\<close>.\<close>

definition update_gemini_call_time ::
  "datetime \<Rightarrow> datetime \<Rightarrow> gate_state \<Rightarrow> pyid \<Rightarrow> gate_state" where
  "update_gemini_call_time now1 now2 s uid =
     (let s1 = s\<lparr>gemini_last_call_time := now1\<rparr>
      in if truthy uid
         then s1\<lparr>gemini_user_cooldowns := (gemini_user_cooldowns s1)(uid \<mapsto> now2)\<rparr>
         else s1)"

section \<open>Response cache\<close>

text \<open>
  The keyword arguments of one analysis request. \<open>length_arg\<close> is the argument
  \<open>length\<close> of the source.
\<close>

record request =
  mode :: pyarg
  custom_prompt :: pyarg
  tone :: pyarg
  length_arg :: pyarg
  language :: pyarg
  question :: pyarg
  user_id :: pyid

text \<open>\<open>d[k] = v\<close> and \<open>del d[k]\<close> on a dict kept in iteration order: a new key goes to
  the end, an existing key keeps its place.\<close>

fun dict_set :: "('k \<times> 'v) list \<Rightarrow> 'k \<Rightarrow> 'v \<Rightarrow> ('k \<times> 'v) list" where
  "dict_set [] k v = [(k, v)]"
| "dict_set ((k', v') # d) k v = (if k' = k then (k', v) # d else (k', v') # dict_set d k v)"

definition dict_del :: "('k \<times> 'v) list \<Rightarrow> 'k \<Rightarrow> ('k \<times> 'v) list" where
  "dict_del d k = filter (\<lambda>p. fst p \<noteq> k) d"

definition cache_key :: "string \<Rightarrow> request \<Rightarrow> string" where
  "cache_key image_hash rq =
     image_hash @ '':'' @ arg_str (mode rq) @ '':'' @ arg_str (custom_prompt rq) @ '':''
       @ arg_str (tone rq) @ '':'' @ arg_str (length_arg rq) @ '':'' @ arg_str (language rq)
       @ '':'' @ arg_str (question rq)"

definition get_cached_result :: "gate_state \<Rightarrow> string \<Rightarrow> request \<Rightarrow> result_data option" where
  "get_cached_result s image_hash rq =
     map_of (gemini_request_cache s) (cache_key image_hash rq)"

definition cache_result :: "gate_state \<Rightarrow> string \<Rightarrow> request \<Rightarrow> result_data \<Rightarrow> gate_state" where
  "cache_result s image_hash rq result =
     (let c1 = dict_set (gemini_request_cache s) (cache_key image_hash rq) result
      in if length c1 > 1000
         then (let keys_to_remove = take 100 (map fst c1)
               in s\<lparr>gemini_request_cache := foldl dict_del c1 keys_to_remove\<rparr>)
         else s\<lparr>gemini_request_cache := c1\<rparr>)"

section \<open>Content fingerprinter\<close>

text \<open>
  The image file either cannot be opened or read (the exception carries a message) or has
  a content. The digest function of \<open>hashlib\<close> is a parameter: \<open>md5_hexdigest\<close> maps
  the bytes fed to the hash object to its hex digest.
\<close>

datatype image_file = Unreadable string | Readable bytes

function read_chunks :: "bytes \<Rightarrow> bytes \<Rightarrow> bytes" where
  "read_chunks f fed =
     (let chunk = take 8192 f
      in if chunk \<noteq> [] then read_chunks (drop 8192 f) (fed @ chunk) else fed)"
  by pat_completeness auto
termination
  by (relation "measure (\<lambda>(f, fed). length f)") auto

text \<open>
  \<open>hash_file\<close> is the body of the \<open>try\<close> in \<open>calculate_image_hash\<close>: it ends with
  the exception that opening or reading the file raises (\<open>Inl\<close>) or with the digest.
  \<open>calculate_image_hash\<close> adds the handler, which catches every exception and returns
  \<open>None\<close>: no exception leaves the function.
\<close>

definition hash_file :: "(bytes \<Rightarrow> string) \<Rightarrow> image_file \<Rightarrow> string + string" where
  "hash_file md5_hexdigest f =
     (case f of
        Unreadable e \<Rightarrow> Inl e
      | Readable content \<Rightarrow> Inr (md5_hexdigest (read_chunks content [])))"

definition calculate_image_hash :: "(bytes \<Rightarrow> string) \<Rightarrow> image_file \<Rightarrow> string option" where
  "calculate_image_hash md5_hexdigest f =
     (case hash_file md5_hexdigest f of
        Inl e \<Rightarrow> None
      | Inr file_hash \<Rightarrow> Some file_hash)"

section \<open>Provider adapter\<close>

definition default_models :: "string list" where
  "default_models = [''gemini-2.0-flash'', ''gemini-flash-latest'', ''gemini-1.5-flash-latest'']"

text \<open>\<open>list(dict.fromkeys(xs))\<close>: duplicates removed, first occurrences kept.\<close>

fun fromkeys :: "'a list \<Rightarrow> 'a list" where
  "fromkeys [] = []"
| "fromkeys (x # xs) = x # fromkeys (removeAll x xs)"

definition models_to_try :: "pyarg \<Rightarrow> string list" where
  "models_to_try config_model =
     fromkeys (case config_model of
                 None \<Rightarrow> default_models
               | Some m \<Rightarrow> if m \<noteq> [] then m # default_models else default_models)"

definition prompts :: "string \<rightharpoonup> string" where
  "prompts =
     [''caption'' \<mapsto> ''Generate a concise, emotionally resonant caption for this image.'',
      ''detailed_description'' \<mapsto> ''Provide a detailed, emotionally rich description of this image, capturing its essence, mood, and significance.'',
      ''educational'' \<mapsto> ''Explain this image from an educational perspective. What can be learned from it? What concepts does it illustrate?'',
      ''creative_story'' \<mapsto> ''Create a romantic, emotionally engaging story or poem inspired by this image.'',
      ''keywords'' \<mapsto> ''Generate relevant keywords and tags for this image, focusing on emotional and descriptive elements.'']"

definition languages :: "string \<rightharpoonup> string" where
  "languages = [''en'' \<mapsto> ''English'', ''hi'' \<mapsto> ''Hindi'', ''ur'' \<mapsto> ''Urdu'']"

definition tones :: "string \<rightharpoonup> string" where
  "tones =
     [''formal'' \<mapsto> ''Use a formal, professional tone.'',
      ''casual'' \<mapsto> ''Use a casual, conversational tone.'',
      ''romantic'' \<mapsto> ''Use a romantic, poetic, emotionally expressive tone.'']"

definition lengths :: "string \<rightharpoonup> string" where
  "lengths =
     [''short'' \<mapsto> ''Provide a brief response (1-2 sentences).'',
      ''medium'' \<mapsto> ''Provide a detailed response (3-5 sentences).'',
      ''long'' \<mapsto> ''Provide an extensive, comprehensive response (6+ sentences).'']"

text \<open>\<open>d.get(a, default)\<close> where the key \<open>a\<close> may be \<open>None\<close>, which no table holds.\<close>

definition get_arg :: "(string \<rightharpoonup> string) \<Rightarrow> pyarg \<Rightarrow> string \<Rightarrow> string" where
  "get_arg d a dflt = (case a of None \<Rightarrow> dflt | Some k \<Rightarrow> get_or d k dflt)"

definition final_prompt :: "request \<Rightarrow> string" where
  "final_prompt rq =
     (let nl = [CHR 0x0A];
          base_prompt = get_arg prompts (mode rq)
            ''Provide a detailed, emotionally rich description of this image, capturing its essence, mood, and significance.'';
          language_instruction =
            ''Respond in '' @ get_arg languages (language rq) ''English'' @ ''.'';
          tone_instruction = get_arg tones (tone rq) [];
          length_instruction = get_arg lengths (length_arg rq) []
      in if arg_truthy (custom_prompt rq)
         then arg_str (custom_prompt rq) @ nl @ language_instruction @ nl @ tone_instruction
                @ nl @ length_instruction
         else if arg_truthy (question rq)
         then arg_str (question rq) @ nl @ language_instruction @ nl @ tone_instruction
         else base_prompt @ nl @ language_instruction @ nl @ tone_instruction
                @ nl @ length_instruction)"

text \<open>
  What one pass through the loop body meets. \<open>ModelError\<close>: creating the model object
  raises. \<open>ImageError\<close>: \<open>Image.open\<close> raises. \<open>ApiError\<close>: \<open>generate_content\<close> or
  reading \<open>response.text\<close> raises. \<open>Response\<close>: the text of the response.

  The provider says what a pass meets when the image file can be read; it is a function
  of the position of the attempt, the model name it is called with and the prompt.
  \<open>Image.open\<close> opens the file that \<open>calculate_image_hash\<close> reads: when that file
  cannot be read, the pass ends there with the error of the file, after the model object
  has been created and before any remote call.
\<close>

datatype attempt = ModelError string | ImageError string | ApiError string | Response string

type_synonym provider = "nat \<Rightarrow> string \<Rightarrow> string \<Rightarrow> attempt"

definition loop_body_meets ::
  "provider \<Rightarrow> image_file \<Rightarrow> nat \<Rightarrow> string \<Rightarrow> string \<Rightarrow> attempt" where
  "loop_body_meets prov img i model_name_clean prompt =
     (case prov i model_name_clean prompt of
        ModelError e \<Rightarrow> ModelError e
      | ImageError e \<Rightarrow>
          (case img of Unreadable e' \<Rightarrow> ImageError e' | Readable content \<Rightarrow> ImageError e)
      | ApiError e \<Rightarrow>
          (case img of Unreadable e' \<Rightarrow> ImageError e' | Readable content \<Rightarrow> ApiError e)
      | Response txt \<Rightarrow>
          (case img of Unreadable e' \<Rightarrow> ImageError e' | Readable content \<Rightarrow> Response txt))"

text \<open>How a pass through the loop body ends: by \<open>return\<close> (model name, text), by
  \<open>break\<close> or by \<open>continue\<close>, the last two with the new value of \<open>last_error\<close>.\<close>

datatype step = Return_result string string | Break_loop "string option"
  | Continue_loop "string option"

text \<open>The three tests the source makes on the text of an exception.\<close>

definition quota_signal :: "string \<Rightarrow> bool" where
  "quota_signal error_str = (str_in ''429'' error_str \<or> str_in ''quota'' (lower error_str))"

definition not_found_signal :: "string \<Rightarrow> bool" where
  "not_found_signal error_str =
     (str_in ''404'' error_str \<or> str_in ''not found'' (lower error_str))"

definition unavailable_signal :: "string \<Rightarrow> bool" where
  "unavailable_signal error_str =
     (str_in ''503'' error_str \<or> str_in ''unavailable'' (lower error_str))"

text \<open>
  The handler of the inner \<open>try\<close>. Its last branch raises the exception again; the
  handler of the enclosing \<open>try\<close>, inside the loop, catches it, stores it in
  \<open>last_error\<close> and continues.
\<close>

definition on_api_error :: "string \<Rightarrow> string option \<Rightarrow> step" where
  "on_api_error error_str last_error =
     (if quota_signal error_str then Break_loop (Some error_str)
      else if not_found_signal error_str then Continue_loop last_error
      else if unavailable_signal error_str then Continue_loop last_error
      else Continue_loop (Some error_str))"

definition clean_model_name :: "string \<Rightarrow> string" where
  "clean_model_name model_name =
     (if startswith model_name ''models/'' then replace_empty ''models/'' model_name
      else model_name)"

definition attempt_model ::
  "provider \<Rightarrow> image_file \<Rightarrow> string \<Rightarrow> nat \<Rightarrow> string \<Rightarrow> string option \<Rightarrow> step" where
  "attempt_model prov img prompt i model_name last_error =
     (let model_name_clean = clean_model_name model_name
      in case loop_body_meets prov img i model_name_clean prompt of
           ModelError e \<Rightarrow> Continue_loop (Some e)
         | ImageError e \<Rightarrow> Continue_loop (Some e)
         | ApiError e \<Rightarrow> on_api_error e last_error
         | Response txt \<Rightarrow>
             if txt = [] then on_api_error ''Empty response from model'' last_error
             else Return_result model_name_clean txt)"

text \<open>
  The loop over \<open>models_to_try\<close>. It returns how it ended and the models it attempted,
  in order (the names the source prints as \<open>Attempting with model\<close>).
\<close>

datatype loop_end = Won string string | Lost "string option"

fun try_models ::
  "provider \<Rightarrow> image_file \<Rightarrow> string \<Rightarrow> nat \<Rightarrow> string list \<Rightarrow> string option
     \<Rightarrow> loop_end \<times> string list" where
  "try_models prov img prompt i [] last_error = (Lost last_error, [])"
| "try_models prov img prompt i (model_name # rest) last_error =
     (case attempt_model prov img prompt i model_name last_error of
        Return_result model_name_clean txt \<Rightarrow> (Won model_name_clean txt, [model_name])
      | Break_loop e \<Rightarrow> (Lost e, [model_name])
      | Continue_loop e \<Rightarrow>
          (case try_models prov img prompt (Suc i) rest e of
             (r, attempted) \<Rightarrow> (r, model_name # attempted)))"

section \<open>Admission orchestrator\<close>

text \<open>
  Everything \<open>process_image_with_gemini\<close> reads from outside the module globals, in
  the order it reads it: the day seen by the quota check, the clock seen by the cooldown
  check, the image file and the digest function, the configured model, the clock at the
  start of the loop, the provider, the clock after the response and the two clock reads
  of \<open>update_gemini_call_time\<close>.
\<close>

record env =
  today :: date
  now_check :: datetime
  image :: image_file
  md5_hexdigest :: "bytes \<Rightarrow> string"
  config_GEMINI_MODEL :: pyarg
  start_time :: datetime
  provider :: provider
  end_time :: datetime
  now_update1 :: datetime
  now_update2 :: datetime

definition quota_rejection :: "int \<Rightarrow> int \<Rightarrow> result_data" where
  "quota_rejection current_count daily_limit =
     \<lparr>text_of = warn @ '' Daily quota exceeded. You've used '' @ str_int current_count
         @ '' of '' @ str_int daily_limit @ '' requests today. Quota resets at midnight UTC.'',
      confidence = ''Low'', processing_time = 0, cached = False, cooldown = 3600,
      model_used = None, quota_exceeded = Some True\<rparr>"

definition cooldown_rejection :: "rat \<Rightarrow> string \<Rightarrow> result_data" where
  "cooldown_rejection wait_time message =
     \<lparr>text_of = warn @ '' '' @ message,
      confidence = ''Low'', processing_time = 0, cached = False, cooldown = wait_time,
      model_used = None, quota_exceeded = None\<rparr>"

definition cache_hit :: "result_data \<Rightarrow> result_data" where
  "cache_hit cached_result =
     \<lparr>text_of = text_of cached_result,
      confidence = confidence cached_result,
      processing_time = processing_time cached_result,
      cached = True, cooldown = 0, model_used = None, quota_exceeded = Some False\<rparr>"

definition success_result :: "string \<Rightarrow> string \<Rightarrow> rat \<Rightarrow> result_data" where
  "success_result model_name_clean txt seconds =
     \<lparr>text_of = txt,
      confidence = (if length txt > 100 then ''High''
                    else if length txt > 50 then ''Medium'' else ''Low''),
      processing_time = seconds, cached = False, cooldown = 0,
      model_used = Some model_name_clean, quota_exceeded = Some False\<rparr>"

text \<open>The code after the loop (\<open># If all models fail\<close>).\<close>

definition all_models_failed :: "string option \<Rightarrow> result_data" where
  "all_models_failed last_error =
     (case last_error of
        Some error_str \<Rightarrow>
          if quota_signal error_str
          then \<lparr>text_of = warn @ '' Free tier quota reached for today. Daily limit: ''
                   @ str_int FREE_TIER_DAILY_LIMIT
                   @ '' requests. Please try again tomorrow or consider upgrading.'',
                confidence = ''Low'', processing_time = 0, cached = False, cooldown = 86400,
                model_used = None, quota_exceeded = Some True\<rparr>
          else if str_in ''404'' error_str
          then \<lparr>text_of = warn @ '' Model configuration error. Please contact support.'',
                confidence = ''Low'', processing_time = 0, cached = False, cooldown = 0,
                model_used = None, quota_exceeded = Some False\<rparr>
          else \<lparr>text_of = warn @ '' Error: '' @ take 150 error_str,
                confidence = ''Low'', processing_time = 0, cached = False, cooldown = 300,
                model_used = None, quota_exceeded = Some False\<rparr>
      | None \<Rightarrow>
          \<lparr>text_of = warn @ '' All models failed. Please try again later.'',
           confidence = ''Low'', processing_time = 0, cached = False, cooldown = 300,
           model_used = None, quota_exceeded = Some False\<rparr>)"

text \<open>
  The \<open>try\<close> block: the loop, on the first response the three updates the loop body
  makes before it returns, and otherwise the code after the loop. \<open>image_hash\<close> is
  the value of \<open>calculate_image_hash\<close>. Every statement of the block that can raise
  lies inside the loop body, whose own handler catches it, so the handler of the block
  itself (the system-error dictionary) is never reached and has no branch here.
\<close>

definition call_provider ::
  "env \<Rightarrow> gate_state \<Rightarrow> request \<Rightarrow> string option
     \<Rightarrow> (result_data \<times> string list) \<times> gate_state" where
  "call_provider e s rq image_hash =
     (case try_models (provider e) (image e) (final_prompt rq) 0
             (models_to_try (config_GEMINI_MODEL e)) None of
        (Won model_name_clean txt, attempted) \<Rightarrow>
          (let result = success_result model_name_clean txt
                          (total_seconds (end_time e - start_time e));
               s1 = (if arg_truthy image_hash
                     then cache_result s (arg_str image_hash) rq result else s);
               s2 = update_gemini_call_time (now_update1 e) (now_update2 e) s1 (user_id rq);
               s3 = (if truthy (user_id rq) then snd (increment_daily_count s2 (user_id rq))
                     else s2)
           in ((result, attempted), s3))
      | (Lost last_error, attempted) \<Rightarrow> ((all_models_failed last_error, attempted), s))"

text \<open>The code between the cooldown check and the \<open>try\<close> block.\<close>

definition lookup_or_call ::
  "env \<Rightarrow> gate_state \<Rightarrow> request \<Rightarrow> (result_data \<times> string list) \<times> gate_state" where
  "lookup_or_call e s rq =
     (let image_hash = calculate_image_hash (md5_hexdigest e) (image e)
      in case (if arg_truthy image_hash then get_cached_result s (arg_str image_hash) rq
               else None) of
           Some cached_result \<Rightarrow> ((cache_hit cached_result, []), s)
         | None \<Rightarrow> call_provider e s rq image_hash)"

text \<open>The code from the cooldown check on.\<close>

definition check_cooldown_then_call ::
  "env \<Rightarrow> gate_state \<Rightarrow> request \<Rightarrow> (result_data \<times> string list) \<times> gate_state" where
  "check_cooldown_then_call e s rq =
     (case check_gemini_cooldown (now_check e) s (user_id rq) of
        ((can_call, wait_time, message), s1) \<Rightarrow>
          if \<not> can_call then ((cooldown_rejection wait_time message, []), s1)
          else lookup_or_call e s1 rq)"

text \<open>
  The function returns the dictionary, the models it attempted and the new state.
\<close>

definition process_image_with_gemini ::
  "env \<Rightarrow> gate_state \<Rightarrow> request \<Rightarrow> (result_data \<times> string list) \<times> gate_state" where
  "process_image_with_gemini e s rq =
     (if truthy (user_id rq)
      then (case check_daily_quota (today e) s (user_id rq) of
              ((has_quota, current_count, daily_limit), s1) \<Rightarrow>
                if \<not> has_quota
                then ((quota_rejection current_count daily_limit, []), s1)
                else check_cooldown_then_call e s1 rq)
      else check_cooldown_then_call e s rq)"

section \<open>Example states\<close>

text \<open>The module globals as the module initialises them on day \<open>d\<close>.\<close>

definition initial_state :: "date \<Rightarrow> gate_state" where
  "initial_state d =
     \<lparr>gemini_last_call_time = datetime_min, gemini_user_cooldowns = Map.empty,
      gemini_daily_counts = Map.empty, gemini_daily_reset_date = d,
      gemini_request_cache = []\<rparr>"

text \<open>Day 1, user 7 has made three calls.\<close>

definition three_calls_on_day1 :: gate_state where
  "three_calls_on_day1 = (initial_state 1)\<lparr>gemini_daily_counts := [IntId 7 \<mapsto> 3]\<rparr>"

text \<open>A request of user 7 and a result of the provider for it.\<close>

definition caption_request :: request where
  "caption_request =
     \<lparr>mode = Some ''caption'', custom_prompt = None, tone = Some ''neutral'',
      length_arg = Some ''medium'', language = Some ''en'', question = None,
      user_id = IntId 7\<rparr>"

definition cat_result :: result_data where
  "cat_result = success_result ''gemini-2.0-flash'' ''A cat on a sofa.'' 2"

text \<open>
  \<open>cache_all\<close> calls \<open>cache_result\<close> once for each (image hash, request, result) of
  a list, in order; \<open>key_of\<close> and \<open>entry_of\<close> are the cache key and the cache entry of
  such a call. \<open>numbered_entries n\<close> are \<open>n\<close> calls with \<open>n\<close> different image hashes.
\<close>

definition cache_all :: "gate_state \<Rightarrow> (string \<times> request \<times> result_data) list \<Rightarrow> gate_state" where
  "cache_all s xs = foldl (\<lambda>s x. cache_result s (fst x) (fst (snd x)) (snd (snd x))) s xs"

definition key_of :: "string \<times> request \<times> result_data \<Rightarrow> string" where
  "key_of x = cache_key (fst x) (fst (snd x))"

definition entry_of :: "string \<times> request \<times> result_data \<Rightarrow> string \<times> result_data" where
  "entry_of x = (key_of x, snd (snd x))"

definition numbered_entries :: "nat \<Rightarrow> (string \<times> request \<times> result_data) list" where
  "numbered_entries n = map (\<lambda>i. (replicate i (CHR ''a''), caption_request, cat_result)) [0..<n]"

text \<open>
  A stand-in for the digest function: it gives the MD5 digests of the file contents
  \<open>abc\<close> and of the empty file, the two contents the examples use.
\<close>

definition demo_md5 :: "bytes \<Rightarrow> string" where
  "demo_md5 b = (if b = ''abc'' then ''900150983cd24fb0d6963f7d28e17f72''
                 else ''d41d8cd98f00b204e9800998ecf8427e'')"

text \<open>Providers: what the remote side does at each attempt.\<close>

definition answers :: provider where
  "answers i model_name prompt = Response ''A cat on a sofa.''"

definition all_not_found :: provider where
  "all_not_found i model_name prompt = ApiError ''404 model is not found for API version v1beta''"

definition quota_after_not_found :: provider where
  "quota_after_not_found i model_name prompt =
     (if i = 0 then ApiError ''404 model is not found for API version v1beta''
      else ApiError ''429 Resource has been exhausted'')"

definition error_then_answer :: provider where
  "error_then_answer i model_name prompt =
     (if i = 0 then ApiError ''500 Internal error encountered.''
      else Response ''A cat on a sofa.'')"

definition not_found_then_error :: provider where
  "not_found_then_error i model_name prompt =
     (if i < 2 then ApiError ''404 model is not found for API version v1beta''
      else ApiError ''500 Internal error encountered.'')"

text \<open>
  A call that starts at time \<open>t\<close> on day 1 with the model of config.py configured: the
  provider takes two seconds.
\<close>

definition env_at :: "datetime \<Rightarrow> image_file \<Rightarrow> provider \<Rightarrow> env" where
  "env_at t f prov =
     \<lparr>today = 1, now_check = t, image = f, md5_hexdigest = demo_md5,
      config_GEMINI_MODEL = Some ''gemini-2.0-flash'', start_time = t + 1, provider = prov,
      end_time = t + 2000001, now_update1 = t + 2000002, now_update2 = t + 2000003\<rparr>"

text \<open>
  \<open>passes_over prov img prompt i model_name\<close>: the attempt at position \<open>i\<close> ends
  with \<open>continue\<close>, so that the loop goes on to the next model.
\<close>

definition passes_over ::
  "provider \<Rightarrow> image_file \<Rightarrow> string \<Rightarrow> nat \<Rightarrow> string \<Rightarrow> bool" where
  "passes_over prov img prompt i model_name =
     (case attempt_model prov img prompt i model_name None of
        Continue_loop e \<Rightarrow> True
      | Return_result model_name_clean txt \<Rightarrow> False
      | Break_loop e \<Rightarrow> False)"


text \<open>
  Day 1: under the key 0 the quota map holds 20 calls and the cooldown map a call at
  second 99; the last global call was at second 30.
\<close>

definition key0_state :: gate_state where
  "key0_state =
     (initial_state 1)\<lparr>gemini_last_call_time := 30000000,
        gemini_user_cooldowns := [IntId 0 \<mapsto> 99000000],
        gemini_daily_counts := [IntId 0 \<mapsto> 20]\<rparr>"


declare digits.simps [simp del]
declare read_chunks.simps [simp del]
declare replace_empty.simps [simp del]

section \<open>The checks and the shared state\<close>

lemma check_gemini_cooldown_state: "snd (check_gemini_cooldown now s uid) = s"
  by (simp add: check_gemini_cooldown_def Let_def)

lemma check_daily_quota_state:
  "snd (check_daily_quota day s uid) =
     (if day \<noteq> gemini_daily_reset_date s
      then s\<lparr>gemini_daily_counts := Map.empty, gemini_daily_reset_date := day\<rparr> else s)"
  by (simp add: check_daily_quota_def Let_def)

lemma check_daily_quota_used:
  "fst (snd (fst (check_daily_quota day s uid))) =
     (if day \<noteq> gemini_daily_reset_date s then 0 else get_or (gemini_daily_counts s) uid 0)"
  by (simp add: check_daily_quota_def Let_def get_or_def)

lemma check_daily_quota_allowed:
  "fst (fst (check_daily_quota day s uid)) =
     (fst (snd (fst (check_daily_quota day s uid))) < FREE_TIER_DAILY_LIMIT)"
  by (auto simp add: check_daily_quota_def Let_def)

lemma increment_daily_count_state:
  "snd (increment_daily_count s uid) =
     s\<lparr>gemini_daily_counts :=
         (gemini_daily_counts s)(uid \<mapsto> get_or (gemini_daily_counts s) uid 0 + 1)\<rparr>"
  by (simp add: increment_daily_count_def Let_def)

text \<open>
  C8, as stated, fails: on the first check of a new day \<open>check_daily_quota\<close> clears the
  counts and moves the reset date. User 7 has three calls on day 1; the check on day 2
  leaves a state with no count for user 7 and reset date 2.
\<close>

theorem check_daily_quota_mutates_on_rollover:
  "gemini_daily_counts three_calls_on_day1 (IntId 7) = Some 3
   \<and> gemini_daily_reset_date three_calls_on_day1 = 1
   \<and> gemini_daily_counts (snd (check_daily_quota 2 three_calls_on_day1 (IntId 7))) (IntId 7)
       = None
   \<and> gemini_daily_reset_date (snd (check_daily_quota 2 three_calls_on_day1 (IntId 7))) = 2
   \<and> snd (check_daily_quota 2 three_calls_on_day1 (IntId 7)) \<noteq> three_calls_on_day1"
proof -
  have r: "gemini_daily_reset_date (snd (check_daily_quota 2 three_calls_on_day1 (IntId 7))) = 2"
    by (simp add: check_daily_quota_state)
  have d: "gemini_daily_reset_date three_calls_on_day1 = 1"
    by (simp add: three_calls_on_day1_def initial_state_def)
  from r d have "snd (check_daily_quota 2 three_calls_on_day1 (IntId 7)) \<noteq> three_calls_on_day1"
    by auto
  then show ?thesis
    using d by (simp add: check_daily_quota_state three_calls_on_day1_def)
qed

text \<open>
  C8, amended: for every user and every state, \<open>check_gemini_cooldown\<close> leaves the
  whole shared state as it is; \<open>check_daily_quota\<close> leaves it as it is when the day is
  the stored reset date, and otherwise changes only the quota state, by clearing the
  counts and setting the reset date to day; it never changes the cooldown timestamps
  or the cache. \<open>increment_daily_count\<close> changes the count of its user only and
  \<open>update_gemini_call_time\<close> the cooldown timestamps only.
\<close>

theorem checks_frame:
  "snd (check_gemini_cooldown now s uid) = s
   \<and> (day = gemini_daily_reset_date s \<longrightarrow> snd (check_daily_quota day s uid) = s)
   \<and> (day \<noteq> gemini_daily_reset_date s \<longrightarrow>
        snd (check_daily_quota day s uid)
          = s\<lparr>gemini_daily_counts := Map.empty, gemini_daily_reset_date := day\<rparr>)
   \<and> gemini_last_call_time (snd (check_daily_quota day s uid)) = gemini_last_call_time s
   \<and> gemini_user_cooldowns (snd (check_daily_quota day s uid)) = gemini_user_cooldowns s
   \<and> gemini_request_cache (snd (check_daily_quota day s uid)) = gemini_request_cache s
   \<and> snd (increment_daily_count s uid)
       = s\<lparr>gemini_daily_counts :=
             (gemini_daily_counts s)(uid \<mapsto> get_or (gemini_daily_counts s) uid 0 + 1)\<rparr>
   \<and> gemini_daily_counts (update_gemini_call_time now1 now2 s uid) = gemini_daily_counts s
   \<and> gemini_daily_reset_date (update_gemini_call_time now1 now2 s uid)
       = gemini_daily_reset_date s
   \<and> gemini_request_cache (update_gemini_call_time now1 now2 s uid) = gemini_request_cache s"
  by (simp add: check_gemini_cooldown_state check_daily_quota_state
      increment_daily_count_state update_gemini_call_time_def Let_def)

theorem checks_frame_witness:
  "snd (check_gemini_cooldown 5 three_calls_on_day1 (IntId 7)) = three_calls_on_day1
   \<and> snd (check_daily_quota 1 three_calls_on_day1 (IntId 7)) = three_calls_on_day1
   \<and> snd (check_daily_quota 2 three_calls_on_day1 (IntId 7))
       = three_calls_on_day1\<lparr>gemini_daily_counts := Map.empty, gemini_daily_reset_date := 2\<rparr>"
proof -
  have d: "gemini_daily_reset_date three_calls_on_day1 = 1"
    by (simp add: three_calls_on_day1_def initial_state_def)
  show ?thesis
    using checks_frame [of 5 three_calls_on_day1 "IntId 7" 1]
      checks_frame [of 5 three_calls_on_day1 "IntId 7" 2] d
    by simp
qed

section \<open>Day rollover of the quota tracker\<close>

text \<open>
  C5, as stated, fails for \<open>increment_daily_count\<close>, which reads no date: whatever the
  day of the call, it writes into the map as stored. User 7 has three calls under reset
  date 1. An increment made on day 2 (the provider call ran over midnight) returns 4,
  leaves the reset date at 1 and the map uncleared, and the next check on day 2 reports
  no use at all.
\<close>

theorem increment_daily_count_ignores_rollover:
  "fst (increment_daily_count three_calls_on_day1 (IntId 7)) = 4
   \<and> gemini_daily_reset_date (snd (increment_daily_count three_calls_on_day1 (IntId 7))) = 1
   \<and> gemini_daily_counts (snd (increment_daily_count three_calls_on_day1 (IntId 7))) (IntId 7)
       = Some 4
   \<and> fst (check_daily_quota 2 (snd (increment_daily_count three_calls_on_day1 (IntId 7)))
         (IntId 7)) = (True, 0, 15)"
  by (simp add: increment_daily_count_def check_daily_quota_def three_calls_on_day1_def
      initial_state_def get_or_def FREE_TIER_DAILY_LIMIT_def Let_def)

text \<open>
  C5, amended: \<open>check_daily_quota\<close> compares the current date with the stored reset
  date before it reads the count: when they differ, the state it leaves has an empty
  counts map and today as reset date, and the count it reports is 0; when they are equal
  it reports the stored count of the user (0 if there is none) and leaves the state as it
  is. \<open>increment_daily_count\<close> makes no date check: it adds one to the stored count
  of the user and leaves the reset date and the other counts as they are.
\<close>

theorem quota_rollover:
  "gemini_daily_reset_date (snd (check_daily_quota day s uid)) = day
   \<and> (day \<noteq> gemini_daily_reset_date s \<longrightarrow>
        gemini_daily_counts (snd (check_daily_quota day s uid)) = Map.empty
        \<and> fst (snd (fst (check_daily_quota day s uid))) = 0)
   \<and> (day = gemini_daily_reset_date s \<longrightarrow>
        snd (check_daily_quota day s uid) = s
        \<and> fst (snd (fst (check_daily_quota day s uid))) = get_or (gemini_daily_counts s) uid 0)
   \<and> fst (fst (check_daily_quota day s uid))
       = (fst (snd (fst (check_daily_quota day s uid))) < FREE_TIER_DAILY_LIMIT)
   \<and> fst (increment_daily_count s uid) = get_or (gemini_daily_counts s) uid 0 + 1
   \<and> gemini_daily_reset_date (snd (increment_daily_count s uid)) = gemini_daily_reset_date s
   \<and> gemini_daily_counts (snd (increment_daily_count s uid))
       = (gemini_daily_counts s)(uid \<mapsto> get_or (gemini_daily_counts s) uid 0 + 1)"
proof -
  have "fst (increment_daily_count s uid) = get_or (gemini_daily_counts s) uid 0 + 1"
    by (simp add: increment_daily_count_def Let_def)
  then show ?thesis
    using check_daily_quota_allowed [of day s uid]
    by (simp add: check_daily_quota_state check_daily_quota_used increment_daily_count_state)
qed

theorem quota_rollover_witness:
  "gemini_daily_reset_date three_calls_on_day1 = 1
   \<and> gemini_daily_counts (snd (check_daily_quota 2 three_calls_on_day1 (IntId 7))) = Map.empty
   \<and> fst (snd (fst (check_daily_quota 2 three_calls_on_day1 (IntId 7)))) = 0
   \<and> snd (check_daily_quota 1 three_calls_on_day1 (IntId 7)) = three_calls_on_day1
   \<and> fst (snd (fst (check_daily_quota 1 three_calls_on_day1 (IntId 7)))) = 3"
proof -
  have d: "gemini_daily_reset_date three_calls_on_day1 = 1"
    by (simp add: three_calls_on_day1_def initial_state_def)
  have c: "get_or (gemini_daily_counts three_calls_on_day1) (IntId 7) 0 = 3"
    by (simp add: three_calls_on_day1_def get_or_def)
  show ?thesis
    using quota_rollover [of 2 three_calls_on_day1 "IntId 7"]
      quota_rollover [of 1 three_calls_on_day1 "IntId 7"] d c
    by simp
qed

section \<open>Order of the cooldown checks\<close>

text \<open>
  C7: \<open>check_gemini_cooldown\<close> tests the global cooldown first. Whenever the global
  cooldown is active, also with an active cooldown of the user, the call is rejected with
  the global message and the global waiting time. With no global cooldown, a user whose
  recorded call is less than the interval ago is rejected with exactly the interval minus
  the time since that call. After \<open>update_gemini_call_time\<close> has recorded a call of a
  user (its two clock reads are \<open>tg\<close>, the global timestamp, and \<open>tu\<close>, the timestamp of the user), a
  check of that user less than the interval after \<open>tu\<close> is rejected, and the waiting
  time is the interval minus the elapsed time, short of it by at most the time between
  the two clock reads; so within a second when they are less than a second apart.
\<close>

theorem cooldown_order_and_wait:
  "(total_seconds (now - gemini_last_call_time s) < FREE_TIER_COOLDOWN \<longrightarrow>
      fst (check_gemini_cooldown now s uid) =
        (False, FREE_TIER_COOLDOWN - total_seconds (now - gemini_last_call_time s),
         ''Global cooldown active. Please wait ''
           @ fmt0f (FREE_TIER_COOLDOWN - total_seconds (now - gemini_last_call_time s))
           @ '' seconds.''))
   \<and> (\<not> total_seconds (now - gemini_last_call_time s) < FREE_TIER_COOLDOWN \<and> truthy uid
        \<and> gemini_user_cooldowns s uid = Some t
        \<and> total_seconds (now - t) < FREE_TIER_COOLDOWN \<longrightarrow>
      fst (check_gemini_cooldown now s uid) =
        (False, FREE_TIER_COOLDOWN - total_seconds (now - t),
         ''Please wait '' @ fmt0f (FREE_TIER_COOLDOWN - total_seconds (now - t))
           @ '' seconds before another analysis.''))
   \<and> (truthy uid \<and> tg \<le> tu \<and> total_seconds (now - tu) < FREE_TIER_COOLDOWN \<longrightarrow>
      \<not> fst (fst (check_gemini_cooldown now (update_gemini_call_time tg tu s uid) uid))
      \<and> fst (snd (fst (check_gemini_cooldown now (update_gemini_call_time tg tu s uid) uid)))
          \<le> FREE_TIER_COOLDOWN - total_seconds (now - tu)
      \<and> FREE_TIER_COOLDOWN - total_seconds (now - tu)
          - fst (snd (fst (check_gemini_cooldown now (update_gemini_call_time tg tu s uid) uid)))
          \<le> total_seconds (tu - tg)
      \<and> (total_seconds (tu - tg) < 1 \<longrightarrow>
           \<bar>fst (snd (fst (check_gemini_cooldown now
                 (update_gemini_call_time tg tu s uid) uid)))
             - (FREE_TIER_COOLDOWN - total_seconds (now - tu))\<bar> < 1))"
proof -
  have global: "total_seconds (now - gemini_last_call_time s) < FREE_TIER_COOLDOWN \<Longrightarrow>
      fst (check_gemini_cooldown now s uid) =
        (False, FREE_TIER_COOLDOWN - total_seconds (now - gemini_last_call_time s),
         ''Global cooldown active. Please wait ''
           @ fmt0f (FREE_TIER_COOLDOWN - total_seconds (now - gemini_last_call_time s))
           @ '' seconds.'')"
    by (simp add: check_gemini_cooldown_def Let_def)
  have user: "\<not> total_seconds (now - gemini_last_call_time s) < FREE_TIER_COOLDOWN \<Longrightarrow>
      truthy uid \<Longrightarrow> gemini_user_cooldowns s uid = Some t \<Longrightarrow>
      total_seconds (now - t) < FREE_TIER_COOLDOWN \<Longrightarrow>
      fst (check_gemini_cooldown now s uid) =
        (False, FREE_TIER_COOLDOWN - total_seconds (now - t),
         ''Please wait '' @ fmt0f (FREE_TIER_COOLDOWN - total_seconds (now - t))
           @ '' seconds before another analysis.'')"
    by (simp add: check_gemini_cooldown_def Let_def get_or_def)
  have recorded: "\<not> fst (fst (check_gemini_cooldown now s' uid))
      \<and> fst (snd (fst (check_gemini_cooldown now s' uid)))
          \<le> FREE_TIER_COOLDOWN - total_seconds (now - tu)
      \<and> FREE_TIER_COOLDOWN - total_seconds (now - tu)
          - fst (snd (fst (check_gemini_cooldown now s' uid)))
          \<le> total_seconds (tu - tg)"
    if u: "truthy uid" and le: "tg \<le> tu"
      and el: "total_seconds (now - tu) < FREE_TIER_COOLDOWN"
      and s': "s' = update_gemini_call_time tg tu s uid" for s'
  proof -
    have g: "gemini_last_call_time s' = tg" and c: "gemini_user_cooldowns s' uid = Some tu"
      using u by (simp_all add: s' update_gemini_call_time_def Let_def)
    have d: "total_seconds (now - tg) - total_seconds (now - tu) = total_seconds (tu - tg)"
      by (simp add: total_seconds_def field_simps)
    have n: "0 \<le> total_seconds (tu - tg)"
      using le by (simp add: total_seconds_def)
    show ?thesis
    proof (cases "total_seconds (now - tg) < FREE_TIER_COOLDOWN")
      case True
      then show ?thesis
        using d n by (simp add: check_gemini_cooldown_def Let_def g)
    next
      case False
      then show ?thesis
        using u el n by (simp add: check_gemini_cooldown_def Let_def g c get_or_def)
    qed
  qed
  show ?thesis
    using global user recorded [OF _ _ _ refl] by (auto simp add: abs_if)
qed

theorem cooldown_order_and_wait_witness:
  "fst (check_gemini_cooldown 130000000
          (update_gemini_call_time 100000000 100000005 (initial_state 1) (IntId 7)) (IntId 7))
     = (False, 30, ''Global cooldown active. Please wait 30 seconds.'')
   \<and> fst (check_gemini_cooldown 130000000
          ((initial_state 1)\<lparr>gemini_user_cooldowns := [IntId 7 \<mapsto> 100000000]\<rparr>) (IntId 7))
     = (False, 30, ''Please wait 30 seconds before another analysis.'')
   \<and> \<not> fst (fst (check_gemini_cooldown 160000002
          (update_gemini_call_time 100000000 100000005 (initial_state 1) (IntId 7)) (IntId 7)))
   \<and> \<bar>fst (snd (fst (check_gemini_cooldown 160000002
          (update_gemini_call_time 100000000 100000005 (initial_state 1) (IntId 7)) (IntId 7))))
        - (FREE_TIER_COOLDOWN - total_seconds (160000002 - 100000005))\<bar> < 1"
proof -
  have f: "fmt0f 30 = ''30''"
    by code_simp
  have g: "gemini_last_call_time
      (update_gemini_call_time 100000000 100000005 (initial_state 1) (IntId 7)) = 100000000"
    by (simp add: update_gemini_call_time_def Let_def)
  have a: "fst (check_gemini_cooldown 130000000
          (update_gemini_call_time 100000000 100000005 (initial_state 1) (IntId 7)) (IntId 7))
     = (False, 30, ''Global cooldown active. Please wait 30 seconds.'')"
    using cooldown_order_and_wait [where now = 130000000 and uid = "IntId 7"
        and s = "update_gemini_call_time 100000000 100000005 (initial_state 1) (IntId 7)"] f
    by (simp add: g total_seconds_def FREE_TIER_COOLDOWN_def)
  have b: "fst (check_gemini_cooldown 130000000
          ((initial_state 1)\<lparr>gemini_user_cooldowns := [IntId 7 \<mapsto> 100000000]\<rparr>) (IntId 7))
     = (False, 30, ''Please wait 30 seconds before another analysis.'')"
    using cooldown_order_and_wait [where now = 130000000 and uid = "IntId 7" and t = 100000000
        and s = "(initial_state 1)\<lparr>gemini_user_cooldowns := [IntId 7 \<mapsto> 100000000]\<rparr>"] f
    by (simp add: initial_state_def datetime_min_def total_seconds_def FREE_TIER_COOLDOWN_def)
  have c: "\<not> fst (fst (check_gemini_cooldown 160000002
          (update_gemini_call_time 100000000 100000005 (initial_state 1) (IntId 7)) (IntId 7)))
   \<and> \<bar>fst (snd (fst (check_gemini_cooldown 160000002
          (update_gemini_call_time 100000000 100000005 (initial_state 1) (IntId 7)) (IntId 7))))
        - (FREE_TIER_COOLDOWN - total_seconds (160000002 - 100000005))\<bar> < 1"
    using cooldown_order_and_wait [where now = 160000002 and uid = "IntId 7" and t = 0
        and tg = 100000000 and tu = 100000005 and s = "initial_state 1",
        THEN conjunct2, THEN conjunct2]
    by (simp add: total_seconds_def FREE_TIER_COOLDOWN_def)
  from a b c show ?thesis by simp
qed

section \<open>Eviction from the response cache\<close>

lemma dict_set_new: "k \<notin> fst ` set d \<Longrightarrow> dict_set d k v = d @ [(k, v)]"
  by (induction d) auto

lemma dict_set_keys:
  "map fst (dict_set d k v) = (if k \<in> fst ` set d then map fst d else map fst d @ [k])"
  by (induction d) fastforce+

lemma dict_set_distinct: "distinct (map fst d) \<Longrightarrow> distinct (map fst (dict_set d k v))"
  by (simp add: dict_set_keys)

lemma dict_del_head: "k \<notin> fst ` set d \<Longrightarrow> dict_del ((k, v) # d) k = d"
  by (induction d) (auto simp add: dict_del_def)

lemma del_first_keys:
  "distinct (map fst d) \<Longrightarrow> foldl dict_del d (take n (map fst d)) = drop n d"
proof (induction d arbitrary: n)
  case Nil
  then show ?case by simp
next
  case (Cons p d)
  show ?case
  proof (cases n)
    case 0
    then show ?thesis by simp
  next
    case (Suc m)
    from Cons.prems have "fst p \<notin> fst ` set d" and "distinct (map fst d)"
      by simp_all
    then show ?thesis
      using Cons.IH [of m] dict_del_head [of "fst p" d "snd p"] by (simp add: Suc)
  qed
qed

lemma cache_result_cache:
  assumes "distinct (map fst (gemini_request_cache s))"
  shows "gemini_request_cache (cache_result s h rq r) =
     (let c1 = dict_set (gemini_request_cache s) (cache_key h rq) r
      in if 1000 < length c1 then drop 100 c1 else c1)"
  using del_first_keys [OF dict_set_distinct [OF assms], of "cache_key h rq" r 100]
  by (simp add: cache_result_def Let_def)

lemma cache_all_snoc:
  "cache_all s (xs @ [x]) = cache_result (cache_all s xs) (fst x) (fst (snd x)) (snd (snd x))"
  by (simp add: cache_all_def)

lemma fst_entry_of: "fst (entry_of x) = key_of x"
  by (simp add: entry_of_def)

lemma keys_of_entries: "map fst (map entry_of xs) = map key_of xs"
  by (simp add: fst_entry_of comp_def)

lemma cache_all_no_eviction:
  assumes "gemini_request_cache s = []"
  shows "length xs \<le> 1000 \<Longrightarrow> distinct (map key_of xs) \<Longrightarrow>
     gemini_request_cache (cache_all s xs) = map entry_of xs"
proof (induction xs rule: rev_induct)
  case Nil
  then show ?case by (simp add: cache_all_def assms)
next
  case (snoc x xs)
  have c: "gemini_request_cache (cache_all s xs) = map entry_of xs"
    using snoc by simp
  have d: "distinct (map fst (map entry_of xs))"
    using snoc.prems(2) by (simp only: keys_of_entries) simp
  have "key_of x \<notin> set (map fst (map entry_of xs))"
    using snoc.prems(2) by (simp only: keys_of_entries) simp
  then have new: "cache_key (fst x) (fst (snd x)) \<notin> fst ` set (map entry_of xs)"
    by (simp add: key_of_def image_image)
  show ?case
    using snoc.prems(1) cache_result_cache [of "cache_all s xs"] d
    by (simp add: cache_all_snoc c dict_set_new [OF new] Let_def entry_of_def key_of_def)
qed

lemma numbered_entries_keys: "distinct (map key_of (numbered_entries n))"
proof -
  have "inj_on (\<lambda>i. cache_key (replicate i (CHR ''a'')) caption_request) {0..<n}"
  proof (rule inj_onI)
    fix i j
    assume "cache_key (replicate i (CHR ''a'')) caption_request
      = cache_key (replicate j (CHR ''a'')) caption_request"
    then have "replicate i (CHR ''a'') = replicate j (CHR ''a'')"
      by (simp add: cache_key_def)
    then have "length (replicate i (CHR ''a'')) = length (replicate j (CHR ''a''))"
      by simp
    then show "i = j" by simp
  qed
  then show ?thesis
    by (simp add: numbered_entries_def comp_def distinct_map key_of_def)
qed

lemma cache_all_eviction:
  assumes e: "gemini_request_cache s = []" and l: "length xs = 1001"
    and d: "distinct (map key_of xs)"
  shows "gemini_request_cache (cache_all s xs) = drop 100 (map entry_of xs)"
proof -
  obtain ys x where xs: "xs = ys @ [x]"
    using l by (cases xs rule: rev_cases) auto
  have ly: "length ys = 1000"
    using l xs by simp
  have dy: "distinct (map key_of ys)"
    using d by (simp add: xs)
  have "key_of x \<notin> set (map fst (map entry_of ys))"
    using d by (simp only: keys_of_entries) (simp add: xs)
  then have new: "cache_key (fst x) (fst (snd x)) \<notin> fst ` set (map entry_of ys)"
    by (simp add: key_of_def image_image)
  have cy: "gemini_request_cache (cache_all s ys) = map entry_of ys"
    using cache_all_no_eviction [OF e _ dy] ly by simp
  have "distinct (map fst (map entry_of ys))"
    using dy by (simp only: keys_of_entries)
  then show ?thesis
    using cache_result_cache [of "cache_all s ys"] ly
    by (simp add: xs cache_all_snoc cy dict_set_new [OF new] Let_def entry_of_def key_of_def)
qed

lemma evicted_key_absent:
  assumes "distinct (map fst d)" and "i < n" and "i < length d"
  shows "map_of (drop n d) (fst (d ! i)) = None"
proof -
  have "fst (d ! i) \<notin> set (map fst (drop n d))"
  proof
    assume "fst (d ! i) \<in> set (map fst (drop n d))"
    then obtain j where j: "j < length (drop n d)" and eq: "map fst (drop n d) ! j = fst (d ! i)"
      by (metis in_set_conv_nth length_map)
    have "map fst d ! (n + j) = map fst d ! i"
      using j eq assms by simp
    moreover have "n + j < length (map fst d)" and "i < length (map fst d)"
      using j assms by simp_all
    ultimately have "n + j = i"
      using nth_eq_iff_index_eq [OF assms(1), of "n + j" i] by simp
    then show False using assms(2) by simp
  qed
  then show ?thesis
    by (simp add: map_of_eq_None_iff)
qed

lemma kept_key_present:
  assumes "distinct (map fst d)" and "n \<le> i" and "i < length d"
  shows "map_of (drop n d) (fst (d ! i)) = Some (snd (d ! i))"
proof -
  have "distinct (map fst (drop n d))"
    using assms(1) by (simp add: drop_map [symmetric] distinct_drop del: drop_map)
  moreover have "d ! i \<in> set (drop n d)"
  proof -
    have "drop n d ! (i - n) = d ! i" and "i - n < length (drop n d)"
      using assms by simp_all
    then show ?thesis
      by (metis nth_mem)
  qed
  ultimately show ?thesis
    by (metis map_of_is_SomeI prod.collapse)
qed

lemma numbered_entries_length: "length (numbered_entries n) = n"
  by (simp add: numbered_entries_def)

lemma numbered_entries_nth:
  "i < n \<Longrightarrow> numbered_entries n ! i = (replicate i (CHR ''a''), caption_request, cat_result)"
  by (simp add: numbered_entries_def)

text \<open>
  C6: on a cache whose keys are distinct (as the keys of a dict are), \<open>cache_result\<close>
  stores the entry and, when more than 1000 entries result, removes the first 100 in
  insertion order, and only those. After 1001 calls with distinct keys on an empty cache
  901 entries are left: lookups of the first 100 keys find nothing, lookups of the other
  901 find what was stored.
\<close>

theorem cache_eviction:
  "(distinct (map fst (gemini_request_cache s)) \<longrightarrow>
      gemini_request_cache (cache_result s h rq r) =
        (let c1 = dict_set (gemini_request_cache s) (cache_key h rq) r
         in if 1000 < length c1 then drop 100 c1 else c1)
      \<and> distinct (map fst (gemini_request_cache (cache_result s h rq r))))
   \<and> (gemini_request_cache s = [] \<and> length xs = 1001 \<and> distinct (map key_of xs) \<longrightarrow>
      gemini_request_cache (cache_all s xs) = drop 100 (map entry_of xs)
      \<and> length (gemini_request_cache (cache_all s xs)) = 901
      \<and> (\<forall>i<100. get_cached_result (cache_all s xs) (fst (xs ! i)) (fst (snd (xs ! i))) = None)
      \<and> (\<forall>i. 100 \<le> i \<and> i < 1001 \<longrightarrow>
            get_cached_result (cache_all s xs) (fst (xs ! i)) (fst (snd (xs ! i)))
              = Some (snd (snd (xs ! i)))))"
proof -
  have one: "gemini_request_cache (cache_result s h rq r) =
        (let c1 = dict_set (gemini_request_cache s) (cache_key h rq) r
         in if 1000 < length c1 then drop 100 c1 else c1)
      \<and> distinct (map fst (gemini_request_cache (cache_result s h rq r)))"
    if d: "distinct (map fst (gemini_request_cache s))"
  proof -
    let ?c = "dict_set (gemini_request_cache s) (cache_key h rq) r"
    have "distinct (map fst ?c)"
      by (rule dict_set_distinct [OF d])
    moreover from this have "distinct (map fst (drop 100 ?c))"
      by (simp add: drop_map [symmetric] distinct_drop del: drop_map)
    ultimately show ?thesis
      using cache_result_cache [OF d, of h rq r] by (simp add: Let_def)
  qed
  have many: "gemini_request_cache (cache_all s xs) = drop 100 (map entry_of xs)
      \<and> length (gemini_request_cache (cache_all s xs)) = 901
      \<and> (\<forall>i<100. get_cached_result (cache_all s xs) (fst (xs ! i)) (fst (snd (xs ! i))) = None)
      \<and> (\<forall>i. 100 \<le> i \<and> i < 1001 \<longrightarrow>
            get_cached_result (cache_all s xs) (fst (xs ! i)) (fst (snd (xs ! i)))
              = Some (snd (snd (xs ! i))))"
    if e: "gemini_request_cache s = []" and l: "length xs = 1001"
      and d: "distinct (map key_of xs)"
  proof -
    have c: "gemini_request_cache (cache_all s xs) = drop 100 (map entry_of xs)"
      by (rule cache_all_eviction [OF e l d])
    have dk: "distinct (map fst (map entry_of xs))"
      using d by (simp only: keys_of_entries)
    have gone: "get_cached_result (cache_all s xs) (fst (xs ! i)) (fst (snd (xs ! i))) = None"
      if "i < 100" for i
      using evicted_key_absent [OF dk, of i 100] that l
      by (simp add: get_cached_result_def c entry_of_def key_of_def)
    have kept: "get_cached_result (cache_all s xs) (fst (xs ! i)) (fst (snd (xs ! i)))
        = Some (snd (snd (xs ! i)))"
      if "100 \<le> i" and "i < 1001" for i
      using kept_key_present [OF dk, of 100 i] that l
      by (simp add: get_cached_result_def c entry_of_def key_of_def)
    show ?thesis
      using c gone kept l by simp
  qed
  show ?thesis
    using one many by blast
qed

theorem cache_eviction_witness:
  "gemini_request_cache (cache_result (initial_state 1) [] caption_request cat_result)
     = [(cache_key [] caption_request, cat_result)]
   \<and> length (gemini_request_cache (cache_all (initial_state 1) (numbered_entries 1001))) = 901
   \<and> get_cached_result (cache_all (initial_state 1) (numbered_entries 1001))
        [] caption_request = None
   \<and> get_cached_result (cache_all (initial_state 1) (numbered_entries 1001))
        (replicate 99 (CHR ''a'')) caption_request = None
   \<and> get_cached_result (cache_all (initial_state 1) (numbered_entries 1001))
        (replicate 100 (CHR ''a'')) caption_request = Some cat_result
   \<and> get_cached_result (cache_all (initial_state 1) (numbered_entries 1001))
        (replicate 1000 (CHR ''a'')) caption_request = Some cat_result"
proof -
  have e: "gemini_request_cache (initial_state 1) = []"
    by (simp add: initial_state_def)
  note w = cache_eviction [where s = "initial_state 1" and xs = "numbered_entries 1001"
      and h = "[]" and rq = caption_request and r = cat_result]
  have first: "gemini_request_cache (cache_result (initial_state 1) [] caption_request cat_result)
     = [(cache_key [] caption_request, cat_result)]"
    using w by (simp add: e)
  have many: "length (gemini_request_cache (cache_all (initial_state 1) (numbered_entries 1001)))
      = 901
    \<and> (\<forall>i<100. get_cached_result (cache_all (initial_state 1) (numbered_entries 1001))
          (fst (numbered_entries 1001 ! i)) (fst (snd (numbered_entries 1001 ! i))) = None)
    \<and> (\<forall>i. 100 \<le> i \<and> i < 1001 \<longrightarrow>
          get_cached_result (cache_all (initial_state 1) (numbered_entries 1001))
            (fst (numbered_entries 1001 ! i)) (fst (snd (numbered_entries 1001 ! i)))
          = Some (snd (snd (numbered_entries 1001 ! i))))"
    using w e numbered_entries_keys [of 1001] numbered_entries_length [of 1001] by blast
  have n: "numbered_entries 1001 ! 0 = ([], caption_request, cat_result)"
    "numbered_entries 1001 ! 99 = (replicate 99 (CHR ''a''), caption_request, cat_result)"
    "numbered_entries 1001 ! 100 = (replicate 100 (CHR ''a''), caption_request, cat_result)"
    "numbered_entries 1001 ! 1000 = (replicate 1000 (CHR ''a''), caption_request, cat_result)"
    using numbered_entries_nth [of 0 1001] numbered_entries_nth [of 99 1001]
      numbered_entries_nth [of 100 1001] numbered_entries_nth [of 1000 1001]
    by simp_all
  have a: "get_cached_result (cache_all (initial_state 1) (numbered_entries 1001))
        [] caption_request = None"
    using many [THEN conjunct2, THEN conjunct1, rule_format, of 0] by (simp add: n)
  have b: "get_cached_result (cache_all (initial_state 1) (numbered_entries 1001))
        (replicate 99 (CHR ''a'')) caption_request = None"
    using many [THEN conjunct2, THEN conjunct1, rule_format, of 99] by (simp only: n fst_conv snd_conv)
  have c: "get_cached_result (cache_all (initial_state 1) (numbered_entries 1001))
        (replicate 100 (CHR ''a'')) caption_request = Some cat_result"
    using many [THEN conjunct2, THEN conjunct2, rule_format, of 100]
    by (simp only: n fst_conv snd_conv) simp
  have d: "get_cached_result (cache_all (initial_state 1) (numbered_entries 1001))
        (replicate 1000 (CHR ''a'')) caption_request = Some cat_result"
    using many [THEN conjunct2, THEN conjunct2, rule_format, of 1000]
    by (simp only: n fst_conv snd_conv) simp
  from first many a b c d show ?thesis
    by (simp only: simp_thms)
qed

section \<open>The fallback loop\<close>

lemma startswith_map: "startswith s p \<Longrightarrow> startswith (map f s) (map f p)"
  by (induction s p rule: startswith.induct) auto

lemma str_in_map: "str_in needle s \<Longrightarrow> str_in (map f needle) (map f s)"
proof (induction s)
  case Nil
  then show ?case by simp
next
  case (Cons c cs)
  then show ?case
    using startswith_map [of "c # cs" needle f] by auto
qed

lemma str_in_lower_quota: "str_in ''quota'' s \<Longrightarrow> str_in ''quota'' (lower s)"
proof -
  have "lower ''quota'' = ''quota''"
    by code_simp
  then show "str_in ''quota'' s \<Longrightarrow> str_in ''quota'' (lower s)"
    using str_in_map [of "''quota''" s lower_char] by (simp add: lower_def)
qed

lemma attempt_model_last_error:
  "attempt_model prov img prompt i m le =
     (case attempt_model prov img prompt i m None of
        Return_result model_name_clean txt \<Rightarrow> Return_result model_name_clean txt
      | Break_loop e \<Rightarrow> Break_loop e
      | Continue_loop e \<Rightarrow> Continue_loop (case e of None \<Rightarrow> le | Some x \<Rightarrow> Some x))"
  by (simp add: attempt_model_def loop_body_meets_def on_api_error_def Let_def
      split: attempt.splits image_file.splits)

lemma passes_over_continues:
  "passes_over prov img prompt i m \<Longrightarrow> \<exists>le'. attempt_model prov img prompt i m le = Continue_loop le'"
  using attempt_model_last_error [of prov img prompt i m le]
  by (auto simp add: passes_over_def split: step.splits)

lemma try_models_passed:
  "\<forall>j<length pre. passes_over prov img prompt (i + j) (pre ! j) \<Longrightarrow>
   \<exists>le'. fst (try_models prov img prompt i (pre @ rest) le)
           = fst (try_models prov img prompt (i + length pre) rest le')
         \<and> snd (try_models prov img prompt i (pre @ rest) le)
           = pre @ snd (try_models prov img prompt (i + length pre) rest le')"
proof (induction pre arbitrary: i le)
  case Nil
  then show ?case by auto
next
  case (Cons m pre)
  from Cons.prems have "passes_over prov img prompt (i + 0) ((m # pre) ! 0)"
    by blast
  then obtain le1 where step: "attempt_model prov img prompt i m le = Continue_loop le1"
    using passes_over_continues [of prov img prompt i m le] by auto
  have "\<forall>j<length pre. passes_over prov img prompt (Suc i + j) (pre ! j)"
  proof (intro allI impI)
    fix j
    assume "j < length pre"
    then have "passes_over prov img prompt (i + Suc j) ((m # pre) ! Suc j)"
      using Cons.prems by (metis Suc_less_eq length_Cons)
    then show "passes_over prov img prompt (Suc i + j) (pre ! j)"
      by simp
  qed
  from Cons.IH [OF this, of le1] obtain le' where
    "fst (try_models prov img prompt (Suc i) (pre @ rest) le1)
       = fst (try_models prov img prompt (Suc i + length pre) rest le')"
    "snd (try_models prov img prompt (Suc i) (pre @ rest) le1)
       = pre @ snd (try_models prov img prompt (Suc i + length pre) rest le')"
    by auto
  then have "fst (try_models prov img prompt i ((m # pre) @ rest) le)
           = fst (try_models prov img prompt (i + length (m # pre)) rest le')
         \<and> snd (try_models prov img prompt i ((m # pre) @ rest) le)
           = (m # pre) @ snd (try_models prov img prompt (i + length (m # pre)) rest le')"
    by (simp add: step case_prod_beta)
  then show ?case ..
qed

lemma quota_break:
  assumes "prov i (clean_model_name m) prompt = ApiError err" and "quota_signal err"
  shows "try_models prov (Readable content) prompt i (m # post) le = (Lost (Some err), [m])"
  using assms by (simp add: attempt_model_def loop_body_meets_def on_api_error_def)

lemma all_models_failed_quota:
  "quota_signal err \<Longrightarrow>
   all_models_failed (Some err) =
     \<lparr>text_of = warn @ '' Free tier quota reached for today. Daily limit: ''
         @ str_int FREE_TIER_DAILY_LIMIT
         @ '' requests. Please try again tomorrow or consider upgrading.'',
      confidence = ''Low'', processing_time = 0, cached = False, cooldown = 86400,
      model_used = None, quota_exceeded = Some True\<rparr>"
  by (simp add: all_models_failed_def)

text \<open>
  C2: let the candidate list be \<open>pre @ m # post\<close>, let the attempts on the models of
  \<open>pre\<close> end with \<open>continue\<close>, and let the remote call for \<open>m\<close> (which is made only
  for an image file that can be read) raise an error whose text contains \<open>429\<close> or, in
  any letter case, \<open>quota\<close>. Then the models attempted are
  those of \<open>pre\<close> and \<open>m\<close>, none of \<open>post\<close>; the dictionary returned has
  \<open>quota_exceeded\<close> true and \<open>cooldown\<close> 86400; the shared state is left as it was.
\<close>

theorem quota_error_stops_fallback:
  assumes "models_to_try (config_GEMINI_MODEL e) = pre @ m # post"
    and "\<forall>j<length pre. passes_over (provider e) (image e) (final_prompt rq) j (pre ! j)"
    and "provider e (length pre) (clean_model_name m) (final_prompt rq) = ApiError err"
    and "str_in ''429'' err \<or> str_in ''quota'' err \<or> str_in ''quota'' (lower err)"
    and "image e = Readable content"
  shows "snd (fst (call_provider e s rq image_hash)) = pre @ [m]
    \<and> quota_exceeded (fst (fst (call_provider e s rq image_hash))) = Some True
    \<and> cooldown (fst (fst (call_provider e s rq image_hash))) = 86400
    \<and> cached (fst (fst (call_provider e s rq image_hash))) = False
    \<and> model_used (fst (fst (call_provider e s rq image_hash))) = None
    \<and> snd (call_provider e s rq image_hash) = s"
proof -
  have q: "quota_signal err"
    using assms(4) str_in_lower_quota [of err] by (auto simp add: quota_signal_def)
  from assms(2) have "\<forall>j<length pre.
      passes_over (provider e) (image e) (final_prompt rq) (0 + j) (pre ! j)"
    by simp
  from try_models_passed [OF this, of "m # post" None] obtain le' where
    "fst (try_models (provider e) (image e) (final_prompt rq) 0 (pre @ m # post) None)
       = fst (try_models (provider e) (image e) (final_prompt rq) (0 + length pre) (m # post) le')"
    "snd (try_models (provider e) (image e) (final_prompt rq) 0 (pre @ m # post) None)
       = pre @ snd (try_models (provider e) (image e) (final_prompt rq) (0 + length pre) (m # post) le')"
    by auto
  then have "try_models (provider e) (image e) (final_prompt rq) 0 (pre @ m # post) None
      = (Lost (Some err), pre @ [m])"
    using quota_break [OF _ q, of "provider e" "length pre" m "final_prompt rq" content post le']
      assms(3,5)
    by (simp add: prod_eq_iff)
  then show ?thesis
    by (simp add: call_provider_def assms(1) all_models_failed_quota [OF q])
qed

theorem quota_error_stops_fallback_witness:
  "snd (fst (call_provider (env_at 100000000 (Readable ''abc'') quota_after_not_found)
               (initial_state 1) caption_request (Some ''900150983cd24fb0d6963f7d28e17f72'')))
     = [''gemini-2.0-flash'', ''gemini-flash-latest'']
   \<and> quota_exceeded (fst (fst (call_provider
         (env_at 100000000 (Readable ''abc'') quota_after_not_found)
         (initial_state 1) caption_request (Some ''900150983cd24fb0d6963f7d28e17f72''))))
     = Some True
   \<and> cooldown (fst (fst (call_provider
         (env_at 100000000 (Readable ''abc'') quota_after_not_found)
         (initial_state 1) caption_request (Some ''900150983cd24fb0d6963f7d28e17f72''))))
     = 86400
   \<and> snd (call_provider (env_at 100000000 (Readable ''abc'') quota_after_not_found)
         (initial_state 1) caption_request (Some ''900150983cd24fb0d6963f7d28e17f72''))
     = initial_state 1"
proof -
  let ?e = "env_at 100000000 (Readable ''abc'') quota_after_not_found"
  have m: "models_to_try (config_GEMINI_MODEL ?e)
      = [''gemini-2.0-flash''] @ ''gemini-flash-latest'' # [''gemini-1.5-flash-latest'']"
    by (simp add: env_at_def models_to_try_def default_models_def)
  have p: "\<forall>j<length [''gemini-2.0-flash''].
      passes_over (provider ?e) (image ?e) (final_prompt caption_request) j ([''gemini-2.0-flash''] ! j)"
  proof -
    have "passes_over quota_after_not_found (Readable ''abc'') (final_prompt caption_request) 0
        ''gemini-2.0-flash''"
      by code_simp
    then show ?thesis
      by (simp add: env_at_def)
  qed
  have a: "provider ?e (length [''gemini-2.0-flash'']) (clean_model_name ''gemini-flash-latest'')
      (final_prompt caption_request) = ApiError ''429 Resource has been exhausted''"
    by (simp add: env_at_def quota_after_not_found_def)
  have q: "str_in ''429'' ''429 Resource has been exhausted''
      \<or> str_in ''quota'' ''429 Resource has been exhausted''
      \<or> str_in ''quota'' (lower ''429 Resource has been exhausted'')"
    by simp
  have r: "image ?e = Readable ''abc''"
    by (simp add: env_at_def)
  show ?thesis
    using quota_error_stops_fallback [OF m p a q r, of "initial_state 1"
        "Some ''900150983cd24fb0d6963f7d28e17f72''"]
    by simp
qed

section \<open>Errors of no recognised class\<close>

text \<open>
  C3, as stated, fails: an error that is neither of the quota, the not-found nor the
  unavailable class does not end the request. The first model answers with an internal
  error; the loop goes on to the second model, whose response is returned as a success.
\<close>

theorem other_error_is_not_fatal:
  "error_then_answer 0 (clean_model_name ''gemini-2.0-flash'') (final_prompt caption_request)
     = ApiError ''500 Internal error encountered.''
   \<and> \<not> quota_signal ''500 Internal error encountered.''
   \<and> \<not> not_found_signal ''500 Internal error encountered.''
   \<and> \<not> unavailable_signal ''500 Internal error encountered.''
   \<and> snd (fst (process_image_with_gemini
         (env_at 100000000 (Readable ''abc'') error_then_answer) (initial_state 1)
         caption_request))
       = [''gemini-2.0-flash'', ''gemini-flash-latest'']
   \<and> fst (fst (process_image_with_gemini
         (env_at 100000000 (Readable ''abc'') error_then_answer) (initial_state 1)
         caption_request))
       = \<lparr>text_of = ''A cat on a sofa.'', confidence = ''Low'', processing_time = 2,
          cached = False, cooldown = 0, model_used = Some ''gemini-flash-latest'',
          quota_exceeded = Some False\<rparr>"
  by code_simp

lemma other_error_continues:
  assumes "prov i (clean_model_name m) prompt = ApiError err"
    and "\<not> quota_signal err" and "\<not> not_found_signal err" and "\<not> unavailable_signal err"
  shows "attempt_model prov (Readable content) prompt i m le = Continue_loop (Some err)"
  using assms by (simp add: attempt_model_def loop_body_meets_def on_api_error_def)

lemma all_models_failed_other:
  assumes "\<not> quota_signal err" and "\<not> not_found_signal err"
  shows "all_models_failed (Some err) =
     \<lparr>text_of = warn @ '' Error: '' @ take 150 err,
      confidence = ''Low'', processing_time = 0, cached = False, cooldown = 300,
      model_used = None, quota_exceeded = Some False\<rparr>"
  using assms by (simp add: all_models_failed_def not_found_signal_def)

text \<open>
  C3, amended: when the remote call for a candidate model (made only for an image file
  that can be read) fails with a signal of none of
  the three classes, the error becomes \<open>last_error\<close> and the loop continues with the
  next candidate, whose outcome decides the request. When the failing model is the last
  candidate (the earlier ones having been passed over), all candidates have been
  attempted, the generic error dictionary is returned (the first 150 characters of the
  error, \<open>cooldown\<close> 300, \<open>quota_exceeded\<close> false) and the shared state is unchanged.
\<close>

theorem other_error_tries_next:
  "(prov i (clean_model_name m) prompt = ApiError err
      \<and> \<not> quota_signal err \<and> \<not> not_found_signal err \<and> \<not> unavailable_signal err \<longrightarrow>
      attempt_model prov (Readable content) prompt i m le = Continue_loop (Some err)
      \<and> fst (try_models prov (Readable content) prompt i (m # rest) le)
          = fst (try_models prov (Readable content) prompt (Suc i) rest (Some err))
      \<and> snd (try_models prov (Readable content) prompt i (m # rest) le)
          = m # snd (try_models prov (Readable content) prompt (Suc i) rest (Some err)))
   \<and> (models_to_try (config_GEMINI_MODEL e) = pre @ [m]
      \<and> image e = Readable content
      \<and> (\<forall>j<length pre. passes_over (provider e) (image e) (final_prompt rq) j (pre ! j))
      \<and> provider e (length pre) (clean_model_name m) (final_prompt rq) = ApiError err
      \<and> \<not> quota_signal err \<and> \<not> not_found_signal err \<and> \<not> unavailable_signal err \<longrightarrow>
      call_provider e s rq image_hash =
        ((\<lparr>text_of = warn @ '' Error: '' @ take 150 err,
           confidence = ''Low'', processing_time = 0, cached = False, cooldown = 300,
           model_used = None, quota_exceeded = Some False\<rparr>, pre @ [m]), s))"
proof -
  have step: "attempt_model prov (Readable content) prompt i m le = Continue_loop (Some err)
      \<and> fst (try_models prov (Readable content) prompt i (m # rest) le)
          = fst (try_models prov (Readable content) prompt (Suc i) rest (Some err))
      \<and> snd (try_models prov (Readable content) prompt i (m # rest) le)
          = m # snd (try_models prov (Readable content) prompt (Suc i) rest (Some err))"
    if "prov i (clean_model_name m) prompt = ApiError err"
      and "\<not> quota_signal err" and "\<not> not_found_signal err" and "\<not> unavailable_signal err"
    using other_error_continues [where prov = prov and i = i and m = m and prompt = prompt
        and le = le and content = content, OF that]
    by (simp add: case_prod_beta)
  have last: "call_provider e s rq image_hash =
        ((\<lparr>text_of = warn @ '' Error: '' @ take 150 err,
           confidence = ''Low'', processing_time = 0, cached = False, cooldown = 300,
           model_used = None, quota_exceeded = Some False\<rparr>, pre @ [m]), s)"
    if ms: "models_to_try (config_GEMINI_MODEL e) = pre @ [m]"
      and img: "image e = Readable content"
      and p: "\<forall>j<length pre. passes_over (provider e) (image e) (final_prompt rq) j (pre ! j)"
      and a: "provider e (length pre) (clean_model_name m) (final_prompt rq) = ApiError err"
      and q: "\<not> quota_signal err" and n: "\<not> not_found_signal err"
      and u: "\<not> unavailable_signal err"
  proof -
    from p have "\<forall>j<length pre.
        passes_over (provider e) (image e) (final_prompt rq) (0 + j) (pre ! j)"
      by simp
    from try_models_passed [OF this, of "[m]" None] obtain le' where
      "fst (try_models (provider e) (image e) (final_prompt rq) 0 (pre @ [m]) None)
         = fst (try_models (provider e) (image e) (final_prompt rq) (0 + length pre) [m] le')"
      "snd (try_models (provider e) (image e) (final_prompt rq) 0 (pre @ [m]) None)
         = pre @ snd (try_models (provider e) (image e) (final_prompt rq) (0 + length pre) [m] le')"
      by auto
    then have "try_models (provider e) (image e) (final_prompt rq) 0 (pre @ [m]) None
        = (Lost (Some err), pre @ [m])"
      using other_error_continues [where prov = "provider e" and i = "length pre" and m = m
          and prompt = "final_prompt rq" and le = le' and content = content, OF a q n u]
      by (simp add: prod_eq_iff img)
    then show ?thesis
      by (simp add: call_provider_def ms all_models_failed_other [OF q n])
  qed
  show ?thesis
    using step last by blast
qed

theorem other_error_tries_next_witness:
  "attempt_model error_then_answer (Readable ''abc'') (final_prompt caption_request) 0
       ''gemini-2.0-flash'' None
     = Continue_loop (Some ''500 Internal error encountered.'')
   \<and> fst (call_provider (env_at 100000000 (Readable ''abc'') not_found_then_error)
         (initial_state 1) caption_request None)
     = (\<lparr>text_of = warn @ '' Error: 500 Internal error encountered.'',
         confidence = ''Low'', processing_time = 0, cached = False, cooldown = 300,
         model_used = None, quota_exceeded = Some False\<rparr>,
        [''gemini-2.0-flash'', ''gemini-flash-latest'', ''gemini-1.5-flash-latest''])
   \<and> snd (call_provider (env_at 100000000 (Readable ''abc'') not_found_then_error)
         (initial_state 1) caption_request None)
     = initial_state 1"
proof -
  let ?err = "''500 Internal error encountered.''"
  let ?e = "env_at 100000000 (Readable ''abc'') not_found_then_error"
  have c: "\<not> quota_signal ?err" "\<not> not_found_signal ?err" "\<not> unavailable_signal ?err"
    by code_simp+
  have a0: "error_then_answer 0 (clean_model_name ''gemini-2.0-flash'')
      (final_prompt caption_request) = ApiError ?err"
    by (simp add: error_then_answer_def)
  have ms: "models_to_try (config_GEMINI_MODEL ?e)
      = [''gemini-2.0-flash'', ''gemini-flash-latest''] @ [''gemini-1.5-flash-latest'']"
    by (simp add: env_at_def models_to_try_def default_models_def)
  have p0: "passes_over not_found_then_error (Readable ''abc'') (final_prompt caption_request) 0
      ''gemini-2.0-flash''"
    by code_simp
  have p1: "passes_over not_found_then_error (Readable ''abc'') (final_prompt caption_request) 1
      ''gemini-flash-latest''"
    by code_simp
  have img: "image ?e = Readable ''abc''"
    by (simp add: env_at_def)
  have p: "\<forall>j<length [''gemini-2.0-flash'', ''gemini-flash-latest''].
      passes_over (provider ?e) (image ?e) (final_prompt caption_request) j
        ([''gemini-2.0-flash'', ''gemini-flash-latest''] ! j)"
    using p0 p1 by (simp add: env_at_def less_Suc_eq)
  have a: "provider ?e (length [''gemini-2.0-flash'', ''gemini-flash-latest''])
      (clean_model_name ''gemini-1.5-flash-latest'') (final_prompt caption_request)
      = ApiError ?err"
    by (simp add: env_at_def not_found_then_error_def)
  have first: "attempt_model error_then_answer (Readable ''abc'') (final_prompt caption_request)
      0 ''gemini-2.0-flash'' None = Continue_loop (Some ?err)"
    using other_error_tries_next [where prov = error_then_answer and i = 0
        and m = "''gemini-2.0-flash''" and prompt = "final_prompt caption_request"
        and err = ?err and le = None and e = ?e and pre = "[]" and rq = caption_request
        and content = "''abc''"]
      a0 c
    by blast
  have second: "call_provider ?e (initial_state 1) caption_request None =
        ((\<lparr>text_of = warn @ '' Error: '' @ take 150 ?err,
           confidence = ''Low'', processing_time = 0, cached = False, cooldown = 300,
           model_used = None, quota_exceeded = Some False\<rparr>,
          [''gemini-2.0-flash'', ''gemini-flash-latest''] @ [''gemini-1.5-flash-latest'']),
         initial_state 1)"
    using other_error_tries_next [where e = ?e and rq = caption_request and err = ?err
        and pre = "[''gemini-2.0-flash'', ''gemini-flash-latest'']"
        and m = "''gemini-1.5-flash-latest''" and s = "initial_state 1" and image_hash = None
        and prov = error_then_answer and i = 0 and prompt = "final_prompt caption_request"
        and content = "''abc''"]
      ms p a c img
    by blast
  from first second show ?thesis
    by simp
qed

section \<open>The paths through the orchestrator\<close>

lemma try_models_attempts: "ms \<noteq> [] \<Longrightarrow> snd (try_models prov img prompt i ms le) \<noteq> []"
  by (cases ms) (auto split: step.splits prod.splits)

lemma models_to_try_nonempty: "models_to_try c \<noteq> []"
  by (auto simp add: models_to_try_def default_models_def split: option.splits)

lemma call_provider_attempts: "snd (fst (call_provider e s rq h)) \<noteq> []"
proof -
  have "snd (try_models (provider e) (image e) (final_prompt rq) 0 (models_to_try (config_GEMINI_MODEL e))
      None) \<noteq> []"
    by (rule try_models_attempts [OF models_to_try_nonempty])
  then show ?thesis
    by (auto simp add: call_provider_def Let_def split: prod.splits loop_end.splits)
qed

lemma cache_result_frame:
  "gemini_last_call_time (cache_result s h rq r) = gemini_last_call_time s"
  "gemini_user_cooldowns (cache_result s h rq r) = gemini_user_cooldowns s"
  "gemini_daily_counts (cache_result s h rq r) = gemini_daily_counts s"
  "gemini_daily_reset_date (cache_result s h rq r) = gemini_daily_reset_date s"
  by (simp_all add: cache_result_def Let_def)

lemma call_provider_lost:
  assumes "fst (try_models (provider e) (image e) (final_prompt rq) 0
      (models_to_try (config_GEMINI_MODEL e)) None) = Lost le"
  shows "fst (fst (call_provider e s rq h)) = all_models_failed le"
    and "snd (call_provider e s rq h) = s"
  using assms by (auto simp add: call_provider_def split: prod.splits)

lemma call_provider_won:
  assumes "fst (try_models (provider e) (image e) (final_prompt rq) 0
      (models_to_try (config_GEMINI_MODEL e)) None) = Won mc txt"
  shows "fst (fst (call_provider e s rq h))
      = success_result mc txt (total_seconds (end_time e - start_time e))"
    and "gemini_last_call_time (snd (call_provider e s rq h)) = now_update1 e"
    and "gemini_user_cooldowns (snd (call_provider e s rq h))
      = (if truthy (user_id rq) then (gemini_user_cooldowns s)(user_id rq \<mapsto> now_update2 e)
         else gemini_user_cooldowns s)"
    and "gemini_daily_counts (snd (call_provider e s rq h))
      = (if truthy (user_id rq)
         then (gemini_daily_counts s)(user_id rq \<mapsto>
                get_or (gemini_daily_counts s) (user_id rq) 0 + 1)
         else gemini_daily_counts s)"
    and "gemini_daily_reset_date (snd (call_provider e s rq h)) = gemini_daily_reset_date s"
    and "gemini_request_cache (snd (call_provider e s rq h))
      = (if arg_truthy h
         then gemini_request_cache (cache_result s (arg_str h) rq
                (success_result mc txt (total_seconds (end_time e - start_time e))))
         else gemini_request_cache s)"
  using assms
  by (auto simp add: call_provider_def Let_def increment_daily_count_state
      update_gemini_call_time_def cache_result_frame split: prod.splits)

lemma model_used_outcome:
  "model_used (all_models_failed le) = None"
  "model_used (success_result mc txt secs) = Some mc"
  by (simp_all add: all_models_failed_def success_result_def split: option.splits)

text \<open>The state the cooldown check and the later code work on.\<close>

lemma process_paths:
  "process_image_with_gemini e s rq =
     (if truthy (user_id rq) \<and> \<not> fst (fst (check_daily_quota (today e) s (user_id rq)))
      then ((quota_rejection (fst (snd (fst (check_daily_quota (today e) s (user_id rq)))))
               (snd (snd (fst (check_daily_quota (today e) s (user_id rq))))), []),
            snd (check_daily_quota (today e) s (user_id rq)))
      else (let s1 = (if truthy (user_id rq) then snd (check_daily_quota (today e) s (user_id rq))
                      else s);
                c = fst (check_gemini_cooldown (now_check e) s1 (user_id rq))
            in if \<not> fst c then ((cooldown_rejection (fst (snd c)) (snd (snd c)), []), s1)
               else lookup_or_call e s1 rq))"
proof -
  have c: "check_gemini_cooldown now s' uid = (fst (check_gemini_cooldown now s' uid), s')"
    for now s' uid
    using check_gemini_cooldown_state [of now s' uid] by (simp add: prod_eq_iff)
  show ?thesis
    unfolding process_image_with_gemini_def check_cooldown_then_call_def Let_def
    by (subst c, subst c, subst c) (simp add: case_prod_beta)
qed

lemma lookup_or_call_paths:
  "lookup_or_call e s rq =
     (let h = calculate_image_hash (md5_hexdigest e) (image e)
      in if arg_truthy h \<and> get_cached_result s (arg_str h) rq \<noteq> None
         then ((cache_hit (the (get_cached_result s (arg_str h) rq)), []), s)
         else call_provider e s rq h)"
  by (auto simp add: lookup_or_call_def Let_def split: option.splits)

lemma process_attempted:
  assumes "snd (fst (process_image_with_gemini e s rq)) \<noteq> []"
  shows "process_image_with_gemini e s rq =
     call_provider e
       (if truthy (user_id rq) then snd (check_daily_quota (today e) s (user_id rq)) else s)
       rq (calculate_image_hash (md5_hexdigest e) (image e))"
  using assms
  by (auto simp add: process_paths lookup_or_call_paths Let_def split: if_splits)

section \<open>When the cooldown timestamps are updated\<close>

text \<open>
  C4, as stated, fails for the attempts that fail: user 7 is admitted, the three models
  are attempted and answer not-found, the outcome is the all-models-failed error (not a
  quota stop), and \<open>gemini_last_call_time\<close> is still \<open>datetime.min\<close>, although the
  clock has reached 102 seconds.
\<close>

theorem failed_attempt_keeps_cooldown:
  "snd (fst (process_image_with_gemini
        (env_at 100000000 (Readable ''abc'') all_not_found) (initial_state 1) caption_request))
     = [''gemini-2.0-flash'', ''gemini-flash-latest'', ''gemini-1.5-flash-latest'']
   \<and> quota_exceeded (fst (fst (process_image_with_gemini
        (env_at 100000000 (Readable ''abc'') all_not_found) (initial_state 1) caption_request)))
     = Some False
   \<and> cooldown (fst (fst (process_image_with_gemini
        (env_at 100000000 (Readable ''abc'') all_not_found) (initial_state 1) caption_request)))
     = 300
   \<and> now_update1 (env_at 100000000 (Readable ''abc'') all_not_found) = 102000002
   \<and> gemini_last_call_time (snd (process_image_with_gemini
        (env_at 100000000 (Readable ''abc'') all_not_found) (initial_state 1) caption_request))
     = datetime_min"
  by code_simp

text \<open>
  C4, amended: a call of \<open>process_image_with_gemini\<close> that enters the fallback loop
  sets \<open>gemini_last_call_time\<close> (and, for a truthy \<open>user_id\<close>, the timestamp of the
  user) exactly when a model responds, that is when the returned dictionary names the
  model used. When every attempt fails, by a quota stop or otherwise, both cooldown
  timestamps are left as they were, as they are when no model is attempted.
\<close>

theorem cooldown_updated_on_success_only:
  "(snd (fst (process_image_with_gemini e s rq)) \<noteq> []
      \<and> model_used (fst (fst (process_image_with_gemini e s rq))) \<noteq> None \<longrightarrow>
      gemini_last_call_time (snd (process_image_with_gemini e s rq)) = now_update1 e
      \<and> gemini_user_cooldowns (snd (process_image_with_gemini e s rq))
          = (if truthy (user_id rq) then (gemini_user_cooldowns s)(user_id rq \<mapsto> now_update2 e)
             else gemini_user_cooldowns s))
   \<and> (snd (fst (process_image_with_gemini e s rq)) \<noteq> []
      \<and> model_used (fst (fst (process_image_with_gemini e s rq))) = None \<longrightarrow>
      gemini_last_call_time (snd (process_image_with_gemini e s rq)) = gemini_last_call_time s
      \<and> gemini_user_cooldowns (snd (process_image_with_gemini e s rq))
          = gemini_user_cooldowns s)
   \<and> (snd (fst (process_image_with_gemini e s rq)) = [] \<longrightarrow>
      gemini_last_call_time (snd (process_image_with_gemini e s rq)) = gemini_last_call_time s
      \<and> gemini_user_cooldowns (snd (process_image_with_gemini e s rq))
          = gemini_user_cooldowns s)"
proof -
  define s1 where
    "s1 = (if truthy (user_id rq) then snd (check_daily_quota (today e) s (user_id rq)) else s)"
  define h where "h = calculate_image_hash (md5_hexdigest e) (image e)"
  have s1: "gemini_last_call_time s1 = gemini_last_call_time s"
    "gemini_user_cooldowns s1 = gemini_user_cooldowns s"
    by (simp_all add: s1_def check_daily_quota_state)
  have attempted: ?thesis if a: "snd (fst (process_image_with_gemini e s rq)) \<noteq> []"
  proof -
    have p: "process_image_with_gemini e s rq = call_provider e s1 rq h"
      unfolding s1_def h_def by (rule process_attempted [OF a])
    let ?t = "fst (try_models (provider e) (image e) (final_prompt rq) 0
        (models_to_try (config_GEMINI_MODEL e)) None)"
    show ?thesis
    proof (cases "?t")
      case (Won mc answer)
      show ?thesis
        using call_provider_attempts [of e s1 rq h] call_provider_won [OF Won, of s1 h] s1
        by (simp add: p model_used_outcome)
    next
      case (Lost le)
      show ?thesis
        using call_provider_attempts [of e s1 rq h] call_provider_lost [OF Lost, of s1 h] s1
        by (simp add: p model_used_outcome)
    qed
  qed
  have none: ?thesis if n: "snd (fst (process_image_with_gemini e s rq)) = []"
  proof -
    have "snd (process_image_with_gemini e s rq) = s1"
      using n call_provider_attempts [of e s1 rq h] unfolding s1_def h_def
      by (auto simp add: process_paths lookup_or_call_paths Let_def split: if_splits)
    then show ?thesis
      using n s1 by simp
  qed
  show ?thesis
    using attempted none by blast
qed

theorem cooldown_updated_on_success_only_witness:
  "gemini_last_call_time (snd (process_image_with_gemini
       (env_at 100000000 (Readable ''abc'') answers) (initial_state 1) caption_request))
     = 102000002
   \<and> gemini_last_call_time (snd (process_image_with_gemini
       (env_at 100000000 (Readable ''abc'') all_not_found) (initial_state 1) caption_request))
     = gemini_last_call_time (initial_state 1)
   \<and> gemini_last_call_time (snd (process_image_with_gemini
       (env_at 100000000 (Readable ''abc'') answers) (three_calls_on_day1
          \<lparr>gemini_last_call_time := 90000000\<rparr>) caption_request))
     = 90000000"
proof -
  have ok: "snd (fst (process_image_with_gemini
       (env_at 100000000 (Readable ''abc'') answers) (initial_state 1) caption_request)) \<noteq> []
    \<and> model_used (fst (fst (process_image_with_gemini
       (env_at 100000000 (Readable ''abc'') answers) (initial_state 1) caption_request)))
      \<noteq> None"
    by code_simp
  have failed: "snd (fst (process_image_with_gemini
       (env_at 100000000 (Readable ''abc'') all_not_found) (initial_state 1) caption_request))
      \<noteq> []
    \<and> model_used (fst (fst (process_image_with_gemini
       (env_at 100000000 (Readable ''abc'') all_not_found) (initial_state 1) caption_request)))
      = None"
    by code_simp
  have rejected: "snd (fst (process_image_with_gemini
       (env_at 100000000 (Readable ''abc'') answers) (three_calls_on_day1
          \<lparr>gemini_last_call_time := 90000000\<rparr>) caption_request)) = []"
    by code_simp
  have u: "now_update1 (env_at 100000000 (Readable ''abc'') answers) = 102000002"
    by (simp add: env_at_def)
  show ?thesis
    using cooldown_updated_on_success_only [where e = "env_at 100000000 (Readable ''abc'') answers"
        and s = "initial_state 1" and rq = caption_request]
      cooldown_updated_on_success_only [where
        e = "env_at 100000000 (Readable ''abc'') all_not_found"
        and s = "initial_state 1" and rq = caption_request]
      cooldown_updated_on_success_only [where e = "env_at 100000000 (Readable ''abc'') answers"
        and s = "three_calls_on_day1\<lparr>gemini_last_call_time := 90000000\<rparr>"
        and rq = caption_request]
      ok failed rejected u
    by simp
qed

section \<open>Fingerprint and cache lookups\<close>




lemma call_provider_result_any_state:
  "fst (call_provider e s rq h) = fst (call_provider e s' rq h)"
  by (simp add: call_provider_def Let_def split: prod.splits loop_end.splits)






section \<open>Requests whose image cannot be read\<close>







section \<open>Calls without a user\<close>

lemma lookup_or_call_result_cache_only:
  assumes "gemini_request_cache s = gemini_request_cache s'"
  shows "fst (lookup_or_call e s rq) = fst (lookup_or_call e s' rq)"
  using assms call_provider_result_any_state [of e s rq _ s']
  by (auto simp add: lookup_or_call_paths Let_def get_cached_result_def)

lemma quota_rejection_differs:
  "cooldown_rejection w msg \<noteq> quota_rejection n limit"
  "cache_hit c \<noteq> quota_rejection n limit"
  "success_result mc answer secs \<noteq> quota_rejection n limit"
  "all_models_failed le \<noteq> quota_rejection n limit"
proof -
  have "quota_exceeded (cooldown_rejection w msg) \<noteq> quota_exceeded (quota_rejection n limit)"
    by (simp add: cooldown_rejection_def quota_rejection_def)
  then show "cooldown_rejection w msg \<noteq> quota_rejection n limit"
    by auto
  have "quota_exceeded (cache_hit c) \<noteq> quota_exceeded (quota_rejection n limit)"
    by (simp add: cache_hit_def quota_rejection_def)
  then show "cache_hit c \<noteq> quota_rejection n limit"
    by auto
  have "quota_exceeded (success_result mc answer secs) \<noteq> quota_exceeded (quota_rejection n limit)"
    by (simp add: success_result_def quota_rejection_def)
  then show "success_result mc answer secs \<noteq> quota_rejection n limit"
    by auto
  have "cooldown (all_models_failed le) \<noteq> cooldown (quota_rejection n limit)"
    by (simp add: all_models_failed_def quota_rejection_def split: option.splits)
  then show "all_models_failed le \<noteq> quota_rejection n limit"
    by auto
qed

lemma lookup_or_call_outcome:
  "fst (fst (lookup_or_call e s rq)) \<noteq> quota_rejection n limit"
proof (cases "fst (try_models (provider e) (image e) (final_prompt rq) 0
    (models_to_try (config_GEMINI_MODEL e)) None)")
  case (Won mc answer)
  then show ?thesis
    using call_provider_won(1) [OF Won]
    by (simp add: lookup_or_call_paths Let_def quota_rejection_differs)
next
  case (Lost le)
  then show ?thesis
    using call_provider_lost(1) [OF Lost]
    by (simp add: lookup_or_call_paths Let_def quota_rejection_differs)
qed

text \<open>
  C10: let \<open>user_id\<close> be falsy (\<open>None\<close>, 0 or the empty string). Then
  \<open>process_image_with_gemini\<close> is the code from the cooldown check on, applied to the
  state as it is: no quota check runs. Its outcome does not depend on the quota counts,
  the reset date or the per-user cooldown map, and is never the daily-quota rejection.
  The global cooldown decides the admission: while it is active the call is rejected
  with the global message and waiting time and the state is untouched; once it has
  expired the call goes on to the cache lookup and the provider, whatever the per-user
  cooldown map holds. The call leaves the counts, the reset date and the per-user
  cooldown map as they were; and when a model responds, \<open>gemini_last_call_time\<close> is
  set.
\<close>

theorem falsy_user_id_skips_user_checks:
  assumes "\<not> truthy (user_id rq)"
  shows "process_image_with_gemini e s rq = check_cooldown_then_call e s rq
    \<and> fst (process_image_with_gemini e
         (s\<lparr>gemini_user_cooldowns := uc, gemini_daily_counts := cnt,
            gemini_daily_reset_date := d\<rparr>) rq)
       = fst (process_image_with_gemini e s rq)
    \<and> fst (fst (process_image_with_gemini e s rq)) \<noteq> quota_rejection n limit
    \<and> fst (fst (check_gemini_cooldown (now_check e) s (user_id rq)))
       = (\<not> total_seconds (now_check e - gemini_last_call_time s) < FREE_TIER_COOLDOWN)
    \<and> (total_seconds (now_check e - gemini_last_call_time s) < FREE_TIER_COOLDOWN \<longrightarrow>
         process_image_with_gemini e s rq =
           ((cooldown_rejection
               (FREE_TIER_COOLDOWN - total_seconds (now_check e - gemini_last_call_time s))
               (''Global cooldown active. Please wait ''
                  @ fmt0f (FREE_TIER_COOLDOWN
                      - total_seconds (now_check e - gemini_last_call_time s))
                  @ '' seconds.''), []), s))
    \<and> (\<not> total_seconds (now_check e - gemini_last_call_time s) < FREE_TIER_COOLDOWN \<longrightarrow>
         process_image_with_gemini e s rq = lookup_or_call e s rq)
    \<and> gemini_daily_counts (snd (process_image_with_gemini e s rq)) = gemini_daily_counts s
    \<and> gemini_daily_reset_date (snd (process_image_with_gemini e s rq))
       = gemini_daily_reset_date s
    \<and> gemini_user_cooldowns (snd (process_image_with_gemini e s rq)) = gemini_user_cooldowns s
    \<and> (model_used (fst (fst (process_image_with_gemini e s rq))) \<noteq> None \<longrightarrow>
         gemini_last_call_time (snd (process_image_with_gemini e s rq)) = now_update1 e)"
proof -
  let ?s' = "s\<lparr>gemini_user_cooldowns := uc, gemini_daily_counts := cnt,
      gemini_daily_reset_date := d\<rparr>"
  have skip: "process_image_with_gemini e s rq = check_cooldown_then_call e s rq"
    using assms by (simp add: process_image_with_gemini_def)
  have cd: "fst (check_gemini_cooldown (now_check e) ?s' (user_id rq))
      = fst (check_gemini_cooldown (now_check e) s (user_id rq))"
    using assms by (simp add: check_gemini_cooldown_def Let_def)
  have indep: "fst (process_image_with_gemini e ?s' rq) = fst (process_image_with_gemini e s rq)"
    using assms lookup_or_call_result_cache_only [of ?s' s e rq]
    by (simp add: process_paths Let_def cd del: gate_state.simps)
  have outcome: "fst (fst (process_image_with_gemini e s rq)) \<noteq> quota_rejection n limit"
    using assms lookup_or_call_outcome [of e s rq n limit]
    by (simp add: process_paths Let_def quota_rejection_differs)
  have admit: "fst (fst (check_gemini_cooldown (now_check e) s (user_id rq)))
       = (\<not> total_seconds (now_check e - gemini_last_call_time s) < FREE_TIER_COOLDOWN)"
    using assms by (simp add: check_gemini_cooldown_def Let_def)
  have rejected: "process_image_with_gemini e s rq =
           ((cooldown_rejection
               (FREE_TIER_COOLDOWN - total_seconds (now_check e - gemini_last_call_time s))
               (''Global cooldown active. Please wait ''
                  @ fmt0f (FREE_TIER_COOLDOWN
                      - total_seconds (now_check e - gemini_last_call_time s))
                  @ '' seconds.''), []), s)"
    if "total_seconds (now_check e - gemini_last_call_time s) < FREE_TIER_COOLDOWN"
    using assms that
    by (simp add: process_image_with_gemini_def check_cooldown_then_call_def
        check_gemini_cooldown_def Let_def)
  have admitted: "process_image_with_gemini e s rq = lookup_or_call e s rq"
    if "\<not> total_seconds (now_check e - gemini_last_call_time s) < FREE_TIER_COOLDOWN"
    using assms that
    by (simp add: process_image_with_gemini_def check_cooldown_then_call_def
        check_gemini_cooldown_def Let_def)
  have state: "gemini_daily_counts (snd (process_image_with_gemini e s rq))
        = gemini_daily_counts s
    \<and> gemini_daily_reset_date (snd (process_image_with_gemini e s rq))
        = gemini_daily_reset_date s
    \<and> gemini_user_cooldowns (snd (process_image_with_gemini e s rq)) = gemini_user_cooldowns s
    \<and> (model_used (fst (fst (process_image_with_gemini e s rq))) \<noteq> None \<longrightarrow>
         gemini_last_call_time (snd (process_image_with_gemini e s rq)) = now_update1 e)"
  proof (cases "fst (try_models (provider e) (image e) (final_prompt rq) 0
      (models_to_try (config_GEMINI_MODEL e)) None)")
    case (Won mc answer)
    show ?thesis
      using assms call_provider_won [OF Won]
      by (simp add: process_paths lookup_or_call_paths Let_def cooldown_rejection_def
          cache_hit_def)
  next
    case (Lost le)
    show ?thesis
      using assms call_provider_lost [OF Lost]
      by (simp add: process_paths lookup_or_call_paths Let_def cooldown_rejection_def
          cache_hit_def model_used_outcome)
  qed
  show ?thesis
    using skip indep outcome admit rejected admitted state by blast
qed

theorem falsy_user_id_skips_user_checks_witness:
  "\<not> truthy (IntId 0) \<and> \<not> truthy NoneId \<and> \<not> truthy (StrId [])
   \<and> gemini_daily_counts key0_state (IntId 0) = Some 20
   \<and> fst (fst (process_image_with_gemini (env_at 100000000 (Readable ''abc'') answers)
             key0_state (caption_request\<lparr>user_id := IntId 0\<rparr>)))
       \<noteq> quota_rejection 20 15
   \<and> fst (fst (check_gemini_cooldown 100000000 key0_state (IntId 0)))
   \<and> process_image_with_gemini (env_at 40000000 (Readable ''abc'') answers)
         key0_state (caption_request\<lparr>user_id := IntId 0\<rparr>)
       = ((cooldown_rejection 50 ''Global cooldown active. Please wait 50 seconds.'', []),
          key0_state)
   \<and> process_image_with_gemini (env_at 100000000 (Readable ''abc'') answers)
         key0_state (caption_request\<lparr>user_id := IntId 0\<rparr>)
       = lookup_or_call (env_at 100000000 (Readable ''abc'') answers)
           key0_state (caption_request\<lparr>user_id := IntId 0\<rparr>)
   \<and> gemini_daily_counts (snd (process_image_with_gemini
         (env_at 100000000 (Readable ''abc'') answers)
         key0_state (caption_request\<lparr>user_id := IntId 0\<rparr>))) (IntId 0) = Some 20
   \<and> gemini_user_cooldowns (snd (process_image_with_gemini
         (env_at 100000000 (Readable ''abc'') answers)
         key0_state (caption_request\<lparr>user_id := IntId 0\<rparr>))) (IntId 0) = Some 99000000
   \<and> gemini_last_call_time (snd (process_image_with_gemini
         (env_at 100000000 (Readable ''abc'') answers)
         key0_state (caption_request\<lparr>user_id := IntId 0\<rparr>))) = 102000002"
proof -
  let ?e = "env_at 100000000 (Readable ''abc'') answers"
  let ?rq = "caption_request\<lparr>user_id := IntId 0\<rparr>"
  have f: "\<not> truthy (user_id ?rq)"
    by simp
  have m: "model_used (fst (fst (process_image_with_gemini ?e key0_state ?rq))) \<noteq> None"
    by code_simp
  have k: "gemini_daily_counts key0_state (IntId 0) = Some 20"
    "gemini_user_cooldowns key0_state (IntId 0) = Some 99000000"
    "gemini_last_call_time key0_state = 30000000"
    by (simp_all add: key0_state_def)
  have t: "now_check ?e = 100000000" "now_update1 ?e = 102000002"
    by (simp_all add: env_at_def)
  let ?early = "env_at 40000000 (Readable ''abc'') answers"
  have tearly: "now_check ?early = 40000000"
    by (simp add: env_at_def)
  have f50: "fmt0f 50 = ''50''"
    by code_simp
  have r: "process_image_with_gemini ?early key0_state ?rq
       = ((cooldown_rejection 50 ''Global cooldown active. Please wait 50 seconds.'', []),
          key0_state)"
    using falsy_user_id_skips_user_checks [OF f, where e = ?early and s = key0_state
        and n = 20 and limit = 15 and uc = Map.empty and cnt = Map.empty and d = 1,
        THEN conjunct2, THEN conjunct2, THEN conjunct2, THEN conjunct2, THEN conjunct1] k f50
    by (simp add: tearly total_seconds_def FREE_TIER_COOLDOWN_def)
  have a: "process_image_with_gemini ?e key0_state ?rq = lookup_or_call ?e key0_state ?rq"
    using falsy_user_id_skips_user_checks [OF f, where e = ?e and s = key0_state
        and n = 20 and limit = 15 and uc = Map.empty and cnt = Map.empty and d = 1,
        THEN conjunct2, THEN conjunct2, THEN conjunct2, THEN conjunct2, THEN conjunct2,
        THEN conjunct1] k
    by (simp add: t total_seconds_def FREE_TIER_COOLDOWN_def)
  note w = falsy_user_id_skips_user_checks [OF f, where e = ?e and s = key0_state
      and n = 20 and limit = 15 and uc = Map.empty and cnt = Map.empty and d = 1]
  let ?p = "process_image_with_gemini ?e key0_state ?rq"
  have expired: "\<not> total_seconds (now_check ?e - gemini_last_call_time key0_state)
      < FREE_TIER_COOLDOWN"
    by (simp add: t k total_seconds_def FREE_TIER_COOLDOWN_def)
  have x1: "fst (fst ?p) \<noteq> quota_rejection 20 15"
    using w by blast
  have "fst (fst (check_gemini_cooldown (now_check ?e) key0_state (user_id ?rq)))"
    using w expired by blast
  then have x2: "fst (fst (check_gemini_cooldown 100000000 key0_state (IntId 0)))"
    by (simp add: t)
  have "gemini_daily_counts (snd ?p) = gemini_daily_counts key0_state"
    using w by blast
  then have x3: "gemini_daily_counts (snd ?p) (IntId 0) = Some 20"
    by (simp add: k)
  have "gemini_user_cooldowns (snd ?p) = gemini_user_cooldowns key0_state"
    using w by blast
  then have x4: "gemini_user_cooldowns (snd ?p) (IntId 0) = Some 99000000"
    by (simp add: k)
  have "gemini_last_call_time (snd ?p) = now_update1 ?e"
    using w m by blast
  then have x5: "gemini_last_call_time (snd ?p) = 102000002"
    by (simp add: t)
  have rest: "fst (fst ?p) \<noteq> quota_rejection 20 15
   \<and> fst (fst (check_gemini_cooldown 100000000 key0_state (IntId 0)))
   \<and> gemini_daily_counts (snd ?p) (IntId 0) = Some 20
   \<and> gemini_user_cooldowns (snd ?p) (IntId 0) = Some 99000000
   \<and> gemini_last_call_time (snd ?p) = 102000002"
    using x1 x2 x3 x4 x5 by blast
  have tr: "\<not> truthy (IntId 0) \<and> \<not> truthy NoneId \<and> \<not> truthy (StrId [])"
    by simp
  from tr k(1) rest r a show ?thesis
    by (simp only: simp_thms)
qed

section \<open>Repeating a request\<close>






end
